theory Spec2Isabelle
  imports Main "HOL-Library.Word"
begin

unbundle bit_operations_syntax

section \<open>Machine types\<close>

text \<open>
  The execution core of \<^verbatim>\<open>src/vm.c\<close> works on 64-bit value words (\<^verbatim>\<open>Value\<close>),
  instruction bytes (\<^verbatim>\<open>Inst\<close>) and raw machine addresses. Pointers are modelled as
  64-bit address words; \<^verbatim>\<open>Value*\<close> arithmetic scales by the 8 bytes of a value.
\<close>

type_synonym u8 = "8 word"
type_synonym u16 = "16 word"
type_synonym u32 = "32 word"
type_synonym i32 = "32 word"
type_synonym u64 = "64 word"
type_synonym Value = "64 word"
type_synonym TypeId = "32 word"

section \<open>Value representation (the macros at the head of vm.c)\<close>

definition SIGN_MASK :: u64 where
  "SIGN_MASK = push_bit 63 1"

definition TAGGED_VALUE_MASK :: u64 where
  "TAGGED_VALUE_MASK = 0x7ffc000000000000"

definition TAG_MASK :: u32 where
  "TAG_MASK = push_bit 3 1 - 1"

definition TAGGED_PRIMITIVE_MASK :: u64 where
  "TAGGED_PRIMITIVE_MASK = TAGGED_VALUE_MASK OR push_bit 32 (ucast TAG_MASK)"

definition TAG_NONE :: u8 where "TAG_NONE = 0"
definition TAG_BOOLEAN :: u8 where "TAG_BOOLEAN = 1"
definition TAG_ERROR :: u8 where "TAG_ERROR = 2"
definition TAG_INTEGER :: u8 where "TAG_INTEGER = 7"

definition INTEGER_MASK :: u64 where
  "INTEGER_MASK = TAGGED_VALUE_MASK OR push_bit 32 (ucast TAG_INTEGER)"

definition BOOLEAN_MASK :: u64 where
  "BOOLEAN_MASK = TAGGED_VALUE_MASK OR push_bit 32 (ucast TAG_BOOLEAN)"

definition FALSE_MASK :: u64 where
  "FALSE_MASK = BOOLEAN_MASK"

definition TRUE_BIT_MASK :: u64 where
  "TRUE_BIT_MASK = 1"

definition TRUE_MASK :: u64 where
  "TRUE_MASK = BOOLEAN_MASK OR TRUE_BIT_MASK"

definition NONE_MASK :: u64 where
  "NONE_MASK = TAGGED_VALUE_MASK OR push_bit 32 (ucast TAG_NONE)"

definition POINTER_MASK :: u64 where
  "POINTER_MASK = TAGGED_VALUE_MASK OR SIGN_MASK"

definition ERROR_MASK :: u64 where
  "ERROR_MASK = TAGGED_VALUE_MASK OR push_bit 32 (ucast TAG_ERROR)"

definition NULL_U32 :: u32 where
  "NULL_U32 = 0xffffffff"

text \<open>
  \<^verbatim>\<open>#define VALUE_INTEGER(n) (INTEGER_MASK | n)\<close>: the operand is an \<^verbatim>\<open>int32_t\<close>
  expression; the usual arithmetic conversions turn it into \<^verbatim>\<open>uint64_t\<close>, which
  sign-extends it (\<open>scast\<close>) before the bitwise or.
\<close>

definition VALUE_INTEGER :: "i32 \<Rightarrow> Value" where
  "VALUE_INTEGER n = INTEGER_MASK OR scast n"

definition VALUE_BOOLEAN :: "bool \<Rightarrow> Value" where
  "VALUE_BOOLEAN b = (if b then TRUE_MASK else FALSE_MASK)"

definition VALUE_NONE :: Value where
  "VALUE_NONE = NONE_MASK"

text \<open>\<^verbatim>\<open>VALUE_RETINFO(nrv, rf, cio)\<close>: \<^verbatim>\<open>(Value)(nrv | ((u32)rf << 8) | ((u32)cio << 16))\<close>.\<close>

definition VALUE_RETINFO :: "u8 \<Rightarrow> u8 \<Rightarrow> u8 \<Rightarrow> Value" where
  "VALUE_RETINFO nrv rf cio =
     ucast ((ucast nrv :: u32) OR push_bit 8 (ucast rf :: u32) OR push_bit 16 (ucast cio :: u32))"

definition VALUE_AS_HEAPOBJECT :: "Value \<Rightarrow> u64" where
  "VALUE_AS_HEAPOBJECT v = v AND NOT POINTER_MASK"

text \<open>\<^verbatim>\<open>(int32_t)(v & 0xffffffff)\<close>; the result is read as signed with \<open>sint\<close>.\<close>

definition VALUE_AS_INTEGER :: "Value \<Rightarrow> i32" where
  "VALUE_AS_INTEGER v = ucast (v AND 0xffffffff)"

definition VALUE_AS_BOOLEAN :: "Value \<Rightarrow> bool" where
  "VALUE_AS_BOOLEAN v \<longleftrightarrow> v = TRUE_MASK"

definition VALUE_IS_BOOLEAN :: "Value \<Rightarrow> bool" where
  "VALUE_IS_BOOLEAN v \<longleftrightarrow> v AND (TAGGED_PRIMITIVE_MASK OR SIGN_MASK) = BOOLEAN_MASK"

definition VALUE_IS_POINTER :: "Value \<Rightarrow> bool" where
  "VALUE_IS_POINTER v \<longleftrightarrow> v AND POINTER_MASK = POINTER_MASK"

definition VALUE_IS_NONE :: "Value \<Rightarrow> bool" where
  "VALUE_IS_NONE v \<longleftrightarrow> v = NONE_MASK"

definition VALUE_IS_NUMBER :: "Value \<Rightarrow> bool" where
  "VALUE_IS_NUMBER v \<longleftrightarrow> v AND TAGGED_VALUE_MASK \<noteq> TAGGED_VALUE_MASK"

definition VALUE_IS_ERROR :: "Value \<Rightarrow> bool" where
  "VALUE_IS_ERROR v \<longleftrightarrow> v AND (TAGGED_PRIMITIVE_MASK OR SIGN_MASK) = ERROR_MASK"

definition VALUE_BOTH_NUMBERS :: "Value \<Rightarrow> Value \<Rightarrow> bool" where
  "VALUE_BOTH_NUMBERS v1 v2 \<longleftrightarrow> VALUE_IS_NUMBER v1 \<and> VALUE_IS_NUMBER v2"

definition VALUE_GET_TAG :: "Value \<Rightarrow> u32" where
  "VALUE_GET_TAG v = (ucast (drop_bit 32 v) :: u32) AND TAG_MASK"

definition VALUE_RETINFO_NUMRETVALS :: "Value \<Rightarrow> u8" where
  "VALUE_RETINFO_NUMRETVALS v = ucast (v AND 0xff)"

definition VALUE_RETINFO_RETFLAG :: "Value \<Rightarrow> u8" where
  "VALUE_RETINFO_RETFLAG v = ucast (drop_bit 8 (v AND 0xff00))"


section \<open>Doubles\<close>

text \<open>
  \<^verbatim>\<open>VALUE_AS_NUMBER\<close> and \<^verbatim>\<open>VALUE_NUMBER\<close> reinterpret the 64 bits of a value as an
  IEEE-754 binary64 and back, so a double is carried here as its bit pattern.
  Comparison and negation are exact and are defined on the bit pattern: a NaN
  compares unordered with everything, and the remaining patterns are ordered by sign
  and magnitude (both zeros have key 0). The rounding operations
  (\<^verbatim>\<open>+ - * /\<close>, \<^verbatim>\<open>pow\<close>, \<^verbatim>\<open>fmod\<close>) belong to the platform and are taken as a
  parameter of the opcodes that use them.
\<close>

definition f64_is_nan :: "u64 \<Rightarrow> bool" where
  "f64_is_nan v \<longleftrightarrow>
     v AND 0x7ff0000000000000 = 0x7ff0000000000000 \<and> v AND 0x000fffffffffffff \<noteq> 0"

definition f64_key :: "u64 \<Rightarrow> int" where
  "f64_key v = (if bit v 63 then - uint (v AND 0x7fffffffffffffff)
                else uint (v AND 0x7fffffffffffffff))"

definition f64_lt :: "u64 \<Rightarrow> u64 \<Rightarrow> bool" where
  "f64_lt a b \<longleftrightarrow> \<not> f64_is_nan a \<and> \<not> f64_is_nan b \<and> f64_key a < f64_key b"

definition f64_le :: "u64 \<Rightarrow> u64 \<Rightarrow> bool" where
  "f64_le a b \<longleftrightarrow> \<not> f64_is_nan a \<and> \<not> f64_is_nan b \<and> f64_key a \<le> f64_key b"

definition f64_eq :: "u64 \<Rightarrow> u64 \<Rightarrow> bool" where
  "f64_eq a b \<longleftrightarrow> \<not> f64_is_nan a \<and> \<not> f64_is_nan b \<and> f64_key a = f64_key b"

definition f64_gt :: "u64 \<Rightarrow> u64 \<Rightarrow> bool" where
  "f64_gt a b \<longleftrightarrow> f64_lt b a"

definition f64_ge :: "u64 \<Rightarrow> u64 \<Rightarrow> bool" where
  "f64_ge a b \<longleftrightarrow> f64_le b a"

definition f64_neg :: "u64 \<Rightarrow> u64" where
  "f64_neg v = v XOR SIGN_MASK"

text \<open>The double \<^verbatim>\<open>0.0\<close>, which the int literal of \<^verbatim>\<open>step < 0\<close> converts to.\<close>

definition f64_zero :: u64 where
  "f64_zero = 0"

record FPU =
  f64_add :: "u64 \<Rightarrow> u64 \<Rightarrow> u64"
  f64_sub :: "u64 \<Rightarrow> u64 \<Rightarrow> u64"
  f64_mul :: "u64 \<Rightarrow> u64 \<Rightarrow> u64"
  f64_div :: "u64 \<Rightarrow> u64 \<Rightarrow> u64"
  f64_pow :: "u64 \<Rightarrow> u64 \<Rightarrow> u64"
  f64_fmod :: "u64 \<Rightarrow> u64 \<Rightarrow> u64"

section \<open>The VM state\<close>

text \<open>
  \<^verbatim>\<open>vm.h\<close> is not part of the sources at hand; the state below holds the fields
  that the modelled opcodes of \<^verbatim>\<open>vm.c\<close> read and write, under the names \<^verbatim>\<open>vm.c\<close>
  uses. Result codes and panic types are the enumerations \<^verbatim>\<open>vm.c\<close> names.
  Pointers are 64-bit words and the counters of \<^verbatim>\<open>vm->trace\<close> 32-bit words; the
  length and capacity of the try stack are natural numbers (no property below depends
  on their width).
\<close>

datatype ResultCode =
  RES_CODE_SUCCESS | RES_CODE_PANIC | RES_CODE_STACK_OVERFLOW | RES_CODE_OOM | RES_CODE_UNKNOWN

datatype PanicType = PANIC_STATIC_MSG | PANIC_MSG | PANIC_INFLIGHT_OOM | PANIC_NONE

text \<open>
  The header of a heap object (\<^verbatim>\<open>head.typeId\<close>, \<^verbatim>\<open>head.rc\<close>) together with the
  fields of its \<^verbatim>\<open>fiber\<close> view that the opcodes touch. The panic payload packs a
  pointer to the message with its length (\<^verbatim>\<open>(u64)msg | strlen(msg) << 48\<close>); it is
  kept as the message pointed to and the packed length.
\<close>

record HeapObject =
  typeId :: TypeId
  rc :: u32
  fiber_pcOffset :: u32
  panicPayload :: "string \<times> nat"
  panicType :: PanicType

record TryFrame =
  fp :: u64
  catchPc :: u32
  catchErrDst :: u8

record TryStack =
  buf :: "nat \<Rightarrow> TryFrame"
  len :: nat
  cap :: nat

text \<open>
  Three stores are addressed by machine address: \<open>mem\<close> holds the value slots of the
  register stacks (keyed by the byte address of the slot), \<open>insts\<close> the instruction
  bytes, and \<open>heap\<close> the heap objects and fibers (the main fiber included).
\<close>

record VM =
  curPc :: u64
  curStack :: u64
  stackEndPtr :: u64
  instPtr :: u64
  curFiber :: u64
  tryStack :: TryStack
  refCounts :: u64
  numReleases :: u32
  numReleaseAttempts :: u32
  mem :: "u64 \<Rightarrow> Value"
  insts :: "u64 \<Rightarrow> u8"
  heap :: "u64 \<Rightarrow> HeapObject"

text \<open>The compile-time switches that guard the counters in \<^verbatim>\<open>release\<close>.\<close>

record Build =
  TRACK_GLOBAL_RC :: bool
  TRACE_ENABLED :: bool

text \<open>
  The result structs \<^verbatim>\<open>PcSp\<close> and \<^verbatim>\<open>PcSpResult\<close> of the external helpers
  (fields \<^verbatim>\<open>pc\<close>, \<^verbatim>\<open>sp\<close>, \<^verbatim>\<open>code\<close>).
\<close>

record PcSp =
  res_pc :: u64
  res_sp :: u64

record PcSpResult = PcSp +
  res_code :: ResultCode

text \<open>
  How one opcode body leaves: \<open>Next pc stack vm\<close> is \<^verbatim>\<open>NEXT()\<close> with the two
  register variables of \<^verbatim>\<open>execBytecode\<close>, \<open>Return\<close> is the function returning a
  result code, \<open>Fatal\<close> is a call of \<^verbatim>\<open>zFatal()\<close>.
\<close>

datatype Outcome = Next u64 u64 VM | Return ResultCode VM | Fatal

text \<open>\<^verbatim>\<open>RETURN(code)\<close> publishes the two registers and returns.\<close>

definition RETURN :: "ResultCode \<Rightarrow> u64 \<Rightarrow> u64 \<Rightarrow> VM \<Rightarrow> Outcome" where
  "RETURN c pc stack vm = Return c (vm\<lparr>curPc := pc, curStack := stack\<rparr>)"

subsection \<open>Memory access\<close>

text \<open>\<^verbatim>\<open>p + n\<close> for a \<^verbatim>\<open>Value*\<close> \<open>p\<close>.\<close>

definition slot :: "u64 \<Rightarrow> nat \<Rightarrow> u64" where
  "slot p n = p + 8 * of_nat n"

definition stack_get :: "VM \<Rightarrow> u64 \<Rightarrow> nat \<Rightarrow> Value" where
  "stack_get vm stack n = mem vm (slot stack n)"

definition stack_set :: "VM \<Rightarrow> u64 \<Rightarrow> nat \<Rightarrow> Value \<Rightarrow> VM" where
  "stack_set vm stack n v = vm\<lparr>mem := (mem vm)(slot stack n := v)\<rparr>"

text \<open>\<^verbatim>\<open>pc[n]\<close>.\<close>

definition inst :: "VM \<Rightarrow> u64 \<Rightarrow> nat \<Rightarrow> u8" where
  "inst vm pc n = insts vm (pc + of_nat n)"

definition inst_set :: "VM \<Rightarrow> u64 \<Rightarrow> nat \<Rightarrow> u8 \<Rightarrow> VM" where
  "inst_set vm pc n b = vm\<lparr>insts := (insts vm)(pc + of_nat n := b)\<rparr>"

text \<open>The operand readers; \<^verbatim>\<open>READ_U16\<close> has type \<^verbatim>\<open>int\<close> after promotion.\<close>

definition READ_U16 :: "VM \<Rightarrow> u64 \<Rightarrow> nat \<Rightarrow> u32" where
  "READ_U16 vm pc off = ucast (inst vm pc off) OR push_bit 8 (ucast (inst vm pc (off + 1)))"

definition READ_U32 :: "VM \<Rightarrow> u64 \<Rightarrow> nat \<Rightarrow> u32" where
  "READ_U32 vm pc off =
     ucast (inst vm pc off) OR push_bit 8 (ucast (inst vm pc (off + 1)))
       OR push_bit 16 (ucast (inst vm pc (off + 2))) OR push_bit 24 (ucast (inst vm pc (off + 3)))"

definition READ_U48 :: "VM \<Rightarrow> u64 \<Rightarrow> nat \<Rightarrow> u64" where
  "READ_U48 vm pc off =
     ucast (inst vm pc off) OR push_bit 8 (ucast (inst vm pc (off + 1)))
       OR push_bit 16 (ucast (inst vm pc (off + 2))) OR push_bit 24 (ucast (inst vm pc (off + 3)))
       OR push_bit 32 (ucast (inst vm pc (off + 4))) OR push_bit 40 (ucast (inst vm pc (off + 5)))"

definition getInstOffset :: "VM \<Rightarrow> u64 \<Rightarrow> u64" where
  "getInstOffset vm to = to - instPtr vm"

definition pcOffset :: "VM \<Rightarrow> u64 \<Rightarrow> u32" where
  "pcOffset vm pc = ucast (pc - instPtr vm)"


section \<open>Helpers of vm.c\<close>

text \<open>
  Functions that \<^verbatim>\<open>vm.c\<close> calls but does not define (their names start with \<open>z\<close>)
  are parameters of the definitions that call them. A parameter receives the VM state
  and returns the state it leaves, next to its C result; it never sees the two
  register variables \<^verbatim>\<open>pc\<close> and \<^verbatim>\<open>stack\<close> of \<^verbatim>\<open>execBytecode\<close> unless they are passed.
\<close>

text \<open>\<^verbatim>\<open>obj->head.rc -= 1\<close>.\<close>

definition rc_decr :: "VM \<Rightarrow> u64 \<Rightarrow> VM" where
  "rc_decr vm obj = vm\<lparr>heap := (heap vm)(obj := (heap vm obj)\<lparr>rc := rc (heap vm obj) - 1\<rparr>)\<rparr>"

definition release :: "Build \<Rightarrow> (VM \<Rightarrow> u64 \<Rightarrow> VM) \<Rightarrow> VM \<Rightarrow> Value \<Rightarrow> VM" where
  "release b zFreeObject vm val =
     (let vm1 = (if TRACE_ENABLED b
                 then vm\<lparr>numReleaseAttempts := numReleaseAttempts vm + 1\<rparr> else vm)
      in if VALUE_IS_POINTER val then
           let obj = VALUE_AS_HEAPOBJECT val;
               vm2 = rc_decr vm1 obj;
               vm3 = (if TRACK_GLOBAL_RC b then vm2\<lparr>refCounts := refCounts vm2 - 1\<rparr> else vm2);
               vm4 = (if TRACE_ENABLED b then vm3\<lparr>numReleases := numReleases vm3 + 1\<rparr> else vm3)
           in if rc (heap vm4 obj) = 0 then zFreeObject vm4 obj else vm4
         else vm1)"

definition releaseObject :: "Build \<Rightarrow> (VM \<Rightarrow> u64 \<Rightarrow> VM) \<Rightarrow> VM \<Rightarrow> u64 \<Rightarrow> VM" where
  "releaseObject b zFreeObject vm obj =
     (let vm1 = rc_decr vm obj;
          vm2 = (if TRACK_GLOBAL_RC b then vm1\<lparr>refCounts := refCounts vm1 - 1\<rparr> else vm1);
          vm3 = (if TRACE_ENABLED b
                 then vm2\<lparr>numReleases := numReleases vm2 + 1,
                          numReleaseAttempts := numReleaseAttempts vm2 + 1\<rparr>
                 else vm2)
      in if rc (heap vm3 obj) = 0 then zFreeObject vm3 obj else vm3)"

definition toF64 :: "(VM \<Rightarrow> Value \<Rightarrow> u64) \<Rightarrow> VM \<Rightarrow> Value \<Rightarrow> u64" where
  "toF64 zOtherToF64 vm val = (if VALUE_IS_NUMBER val then val else zOtherToF64 vm val)"

text \<open>\<^verbatim>\<open>TYPE_NUMBER\<close> and the other identifiers of \<^verbatim>\<open>vm.h\<close> are passed in.\<close>

definition getPrimitiveTypeId :: "TypeId \<Rightarrow> Value \<Rightarrow> TypeId" where
  "getPrimitiveTypeId TYPE_NUMBER val =
     (if VALUE_IS_NUMBER val then TYPE_NUMBER else VALUE_GET_TAG val)"

definition getTypeId :: "TypeId \<Rightarrow> VM \<Rightarrow> Value \<Rightarrow> TypeId" where
  "getTypeId TYPE_NUMBER vm val =
     (if VALUE_IS_POINTER val then typeId (heap vm (VALUE_AS_HEAPOBJECT val))
      else getPrimitiveTypeId TYPE_NUMBER val)"

record SemaTypes =
  SEMA_TYPE_ANY :: TypeId
  SEMA_TYPE_DYNAMIC :: TypeId
  SEMA_TYPE_STRING :: TypeId
  SEMA_TYPE_STATICSTRING :: TypeId

definition isTypeSymCompat :: "SemaTypes \<Rightarrow> TypeId \<Rightarrow> TypeId \<Rightarrow> bool" where
  "isTypeSymCompat S typeSymId cstrType =
     (if typeSymId = cstrType then True
      else if cstrType = SEMA_TYPE_ANY S \<or> cstrType = SEMA_TYPE_DYNAMIC S then True
      else if cstrType = SEMA_TYPE_STRING S \<and> typeSymId = SEMA_TYPE_STATICSTRING S then True
      else False)"

definition panicStaticMsg :: "VM \<Rightarrow> string \<Rightarrow> VM" where
  "panicStaticMsg vm msg =
     vm\<lparr>heap := (heap vm)(curFiber vm :=
           (heap vm (curFiber vm))\<lparr>panicPayload := (msg, length msg),
                                   panicType := PANIC_STATIC_MSG\<rparr>)\<rparr>"

definition panicExpectedNumber :: "VM \<Rightarrow> VM" where
  "panicExpectedNumber vm = panicStaticMsg vm ''Expected number operand.''"


section \<open>Opcode bodies of execBytecode\<close>

text \<open>
  Each definition is the body of one \<^verbatim>\<open>CASE\<close> of the dispatch loop, from the
  registers \<^verbatim>\<open>pc\<close> and \<^verbatim>\<open>stack\<close> and the VM state on entry to the way the body
  leaves. \<^verbatim>\<open>stack[pc[i]]\<close> is \<open>stack_get vm stack (unat (inst vm pc i))\<close>.
\<close>

subsection \<open>Arithmetic and comparison\<close>

definition exec_Add :: "FPU \<Rightarrow> u64 \<Rightarrow> u64 \<Rightarrow> VM \<Rightarrow> Outcome" where
  "exec_Add fpu pc stack vm =
     (let left = stack_get vm stack (unat (inst vm pc 1));
          right = stack_get vm stack (unat (inst vm pc 2))
      in if VALUE_BOTH_NUMBERS left right
         then Next (pc + 4) stack (stack_set vm stack (unat (inst vm pc 3)) (f64_add fpu left right))
         else RETURN RES_CODE_PANIC pc stack (panicExpectedNumber vm))"

definition exec_Sub :: "FPU \<Rightarrow> u64 \<Rightarrow> u64 \<Rightarrow> VM \<Rightarrow> Outcome" where
  "exec_Sub fpu pc stack vm =
     (let left = stack_get vm stack (unat (inst vm pc 1));
          right = stack_get vm stack (unat (inst vm pc 2))
      in if VALUE_BOTH_NUMBERS left right
         then Next (pc + 4) stack (stack_set vm stack (unat (inst vm pc 3)) (f64_sub fpu left right))
         else RETURN RES_CODE_PANIC pc stack (panicExpectedNumber vm))"

definition exec_Mul :: "FPU \<Rightarrow> u64 \<Rightarrow> u64 \<Rightarrow> VM \<Rightarrow> Outcome" where
  "exec_Mul fpu pc stack vm =
     (let left = stack_get vm stack (unat (inst vm pc 1));
          right = stack_get vm stack (unat (inst vm pc 2))
      in if VALUE_BOTH_NUMBERS left right
         then Next (pc + 4) stack (stack_set vm stack (unat (inst vm pc 3)) (f64_mul fpu left right))
         else RETURN RES_CODE_PANIC pc stack (panicExpectedNumber vm))"

definition exec_Div :: "FPU \<Rightarrow> u64 \<Rightarrow> u64 \<Rightarrow> VM \<Rightarrow> Outcome" where
  "exec_Div fpu pc stack vm =
     (let left = stack_get vm stack (unat (inst vm pc 1));
          right = stack_get vm stack (unat (inst vm pc 2))
      in if VALUE_BOTH_NUMBERS left right
         then Next (pc + 4) stack (stack_set vm stack (unat (inst vm pc 3)) (f64_div fpu left right))
         else RETURN RES_CODE_PANIC pc stack (panicExpectedNumber vm))"

definition exec_Pow :: "FPU \<Rightarrow> u64 \<Rightarrow> u64 \<Rightarrow> VM \<Rightarrow> Outcome" where
  "exec_Pow fpu pc stack vm =
     (let left = stack_get vm stack (unat (inst vm pc 1));
          right = stack_get vm stack (unat (inst vm pc 2))
      in if VALUE_BOTH_NUMBERS left right
         then Next (pc + 4) stack (stack_set vm stack (unat (inst vm pc 3)) (f64_pow fpu left right))
         else RETURN RES_CODE_PANIC pc stack (panicExpectedNumber vm))"

definition exec_Mod :: "FPU \<Rightarrow> u64 \<Rightarrow> u64 \<Rightarrow> VM \<Rightarrow> Outcome" where
  "exec_Mod fpu pc stack vm =
     (let left = stack_get vm stack (unat (inst vm pc 1));
          right = stack_get vm stack (unat (inst vm pc 2))
      in if VALUE_BOTH_NUMBERS left right
         then Next (pc + 4) stack (stack_set vm stack (unat (inst vm pc 3)) (f64_fmod fpu left right))
         else RETURN RES_CODE_PANIC pc stack (panicExpectedNumber vm))"

definition exec_Less :: "u64 \<Rightarrow> u64 \<Rightarrow> VM \<Rightarrow> Outcome" where
  "exec_Less pc stack vm =
     (let left = stack_get vm stack (unat (inst vm pc 1));
          right = stack_get vm stack (unat (inst vm pc 2))
      in if VALUE_BOTH_NUMBERS left right
         then Next (pc + 4) stack (stack_set vm stack (unat (inst vm pc 3)) (VALUE_BOOLEAN (f64_lt left right)))
         else RETURN RES_CODE_PANIC pc stack (panicExpectedNumber vm))"

definition exec_Greater :: "u64 \<Rightarrow> u64 \<Rightarrow> VM \<Rightarrow> Outcome" where
  "exec_Greater pc stack vm =
     (let left = stack_get vm stack (unat (inst vm pc 1));
          right = stack_get vm stack (unat (inst vm pc 2))
      in if VALUE_BOTH_NUMBERS left right
         then Next (pc + 4) stack (stack_set vm stack (unat (inst vm pc 3)) (VALUE_BOOLEAN (f64_gt left right)))
         else RETURN RES_CODE_PANIC pc stack (panicExpectedNumber vm))"

definition exec_LessEqual :: "u64 \<Rightarrow> u64 \<Rightarrow> VM \<Rightarrow> Outcome" where
  "exec_LessEqual pc stack vm =
     (let left = stack_get vm stack (unat (inst vm pc 1));
          right = stack_get vm stack (unat (inst vm pc 2))
      in if VALUE_BOTH_NUMBERS left right
         then Next (pc + 4) stack (stack_set vm stack (unat (inst vm pc 3)) (VALUE_BOOLEAN (f64_le left right)))
         else RETURN RES_CODE_PANIC pc stack (panicExpectedNumber vm))"

definition exec_GreaterEqual :: "u64 \<Rightarrow> u64 \<Rightarrow> VM \<Rightarrow> Outcome" where
  "exec_GreaterEqual pc stack vm =
     (let left = stack_get vm stack (unat (inst vm pc 1));
          right = stack_get vm stack (unat (inst vm pc 2))
      in if VALUE_BOTH_NUMBERS left right
         then Next (pc + 4) stack (stack_set vm stack (unat (inst vm pc 3)) (VALUE_BOOLEAN (f64_ge left right)))
         else RETURN RES_CODE_PANIC pc stack (panicExpectedNumber vm))"

definition exec_Neg :: "u64 \<Rightarrow> u64 \<Rightarrow> VM \<Rightarrow> Outcome" where
  "exec_Neg pc stack vm =
     (let dst = unat (inst vm pc 1)
      in if VALUE_IS_NUMBER (stack_get vm stack dst)
         then Next (pc + 2) stack (stack_set vm stack dst (f64_neg (stack_get vm stack dst)))
         else RETURN RES_CODE_PANIC pc stack (panicExpectedNumber vm))"

subsection \<open>Integer fast paths\<close>

text \<open>
  \<^verbatim>\<open>VALUE_INTEGER(VALUE_AS_INTEGER(left) + VALUE_AS_INTEGER(right))\<close> expands to
  \<^verbatim>\<open>(INTEGER_MASK | (int32_t)(left & 0xffffffff) + (int32_t)(right & 0xffffffff))\<close>:
  the sum is taken in \<^verbatim>\<open>int\<close> (two's complement, wrapping at 32 bits) and converted to
  64 bits for the bitwise or.
\<close>

definition exec_AddInt :: "u64 \<Rightarrow> u64 \<Rightarrow> VM \<Rightarrow> Outcome" where
  "exec_AddInt pc stack vm =
     (let left = stack_get vm stack (unat (inst vm pc 1));
          right = stack_get vm stack (unat (inst vm pc 2))
      in Next (pc + 4) stack
           (stack_set vm stack (unat (inst vm pc 3))
              (VALUE_INTEGER (VALUE_AS_INTEGER left + VALUE_AS_INTEGER right))))"

definition exec_SubInt :: "u64 \<Rightarrow> u64 \<Rightarrow> VM \<Rightarrow> Outcome" where
  "exec_SubInt pc stack vm =
     (let left = stack_get vm stack (unat (inst vm pc 1));
          right = stack_get vm stack (unat (inst vm pc 2))
      in Next (pc + 4) stack
           (stack_set vm stack (unat (inst vm pc 3))
              (VALUE_INTEGER (VALUE_AS_INTEGER left - VALUE_AS_INTEGER right))))"

subsection \<open>Calls and returns\<close>

text \<open>\<^verbatim>\<open>CALL_SYM_INST_LEN\<close> and \<^verbatim>\<open>CodeCallObjSym\<close> come from \<^verbatim>\<open>vm.h\<close>.\<close>

definition exec_CallFuncIC :: "u8 \<Rightarrow> u64 \<Rightarrow> u64 \<Rightarrow> VM \<Rightarrow> Outcome" where
  "exec_CallFuncIC CALL_SYM_INST_LEN pc stack vm =
     (let startLocal = inst vm pc 1;
          numLocals = inst vm pc 4
      in if slot (slot stack (unat startLocal)) (unat numLocals) \<ge> stackEndPtr vm
         then RETURN RES_CODE_STACK_OVERFLOW pc stack vm
         else
           let retFramePtr = stack;
               stack' = slot stack (unat startLocal);
               vm1 = stack_set vm stack' 1 (VALUE_RETINFO (inst vm pc 3) 0 CALL_SYM_INST_LEN);
               vm2 = stack_set vm1 stack' 2 (pc + ucast CALL_SYM_INST_LEN);
               vm3 = stack_set vm2 stack' 3 retFramePtr
           in Next (READ_U48 vm3 pc 6) stack' vm3)"

text \<open>
  \<^verbatim>\<open>CallObjFuncIC\<close> declares \<^verbatim>\<open>uint8_t recv\<close>, so the receiver is cut to its low
  byte before \<^verbatim>\<open>getTypeId\<close> sees it. The two byte stores through
  \<^verbatim>\<open>(uint8_t*)(stack + 1)\<close> set the two low bytes of slot 1 (little-endian) and keep
  the rest of the slot.
\<close>

definition exec_CallObjFuncIC :: "TypeId \<Rightarrow> u8 \<Rightarrow> u64 \<Rightarrow> u64 \<Rightarrow> VM \<Rightarrow> Outcome" where
  "exec_CallObjFuncIC TYPE_NUMBER CodeCallObjSym pc stack vm =
     (let startLocal = inst vm pc 1;
          numArgs = inst vm pc 2;
          recv = (ucast (stack_get vm stack (unat startLocal + unat numArgs + 4 - 1)) :: u8);
          tid = getTypeId TYPE_NUMBER vm (ucast recv);
          cachedTypeId = READ_U16 vm pc 14
      in if tid = cachedTypeId then
           let numLocals = inst vm pc 7
           in if slot (slot stack (unat startLocal)) (unat numLocals) \<ge> stackEndPtr vm
              then RETURN RES_CODE_STACK_OVERFLOW pc stack vm
              else
                let retFramePtr = stack;
                    stack' = slot stack (unat startLocal);
                    vm1 = stack_set vm stack' 1
                            ((stack_get vm stack' 1 AND NOT 0xff) OR ucast (inst vm pc 3));
                    vm2 = stack_set vm1 stack' 1 (stack_get vm1 stack' 1 AND NOT 0xff00);
                    vm3 = stack_set vm2 stack' 2 (pc + 16);
                    vm4 = stack_set vm3 stack' 3 retFramePtr
                in Next (instPtr vm4 + ucast (READ_U32 vm4 pc 8)) stack' vm4
         else Next pc stack (inst_set vm pc 0 CodeCallObjSym))"

definition exec_Ret1 :: "Build \<Rightarrow> (VM \<Rightarrow> u64 \<Rightarrow> VM) \<Rightarrow> u64 \<Rightarrow> u64 \<Rightarrow> VM \<Rightarrow> Outcome" where
  "exec_Ret1 b zFreeObject pc stack vm =
     (let reqNumArgs = VALUE_RETINFO_NUMRETVALS (stack_get vm stack 1);
          retFlag = VALUE_RETINFO_RETFLAG (stack_get vm stack 1)
      in if reqNumArgs = 1 then
           let pc' = stack_get vm stack 2;
               stack' = stack_get vm stack 3
           in if retFlag = 0 then Next pc' stack' vm
              else RETURN RES_CODE_SUCCESS pc' stack' vm
         else if reqNumArgs = 0 then
           let vm1 = release b zFreeObject vm (stack_get vm stack 0);
               pc' = stack_get vm1 stack 2;
               stack' = stack_get vm1 stack 3
           in if retFlag = 0 then Next pc' stack' vm1
              else RETURN RES_CODE_SUCCESS pc' stack' vm1
         else Fatal)"

definition exec_Ret0 :: "u64 \<Rightarrow> u64 \<Rightarrow> VM \<Rightarrow> Outcome" where
  "exec_Ret0 pc stack vm =
     (let reqNumArgs = VALUE_RETINFO_NUMRETVALS (stack_get vm stack 1);
          retFlag = VALUE_RETINFO_RETFLAG (stack_get vm stack 1)
      in if reqNumArgs = 0 then
           let pc' = stack_get vm stack 2;
               stack' = stack_get vm stack 3
           in if retFlag = 0 then Next pc' stack' vm
              else RETURN RES_CODE_SUCCESS pc' stack' vm
         else if reqNumArgs = 1 then
           let vm1 = stack_set vm stack 0 VALUE_NONE;
               pc' = stack_get vm1 stack 2;
               stack' = stack_get vm1 stack 3
           in if retFlag = 0 then Next pc' stack' vm1
              else RETURN RES_CODE_SUCCESS pc' stack' vm1
         else Fatal)"


subsection \<open>Try frames and throw\<close>

text \<open>
  \<^verbatim>\<open>zGrowTryStackTotalCapacity(&vm->tryStack, vm->alloc, newCap)\<close> works on the try
  stack in place and returns a result code.
\<close>

definition exec_PushTry ::
  "(TryStack \<Rightarrow> nat \<Rightarrow> ResultCode \<times> TryStack) \<Rightarrow> u64 \<Rightarrow> u64 \<Rightarrow> VM \<Rightarrow> Outcome" where
  "exec_PushTry zGrowTryStackTotalCapacity pc stack vm =
     (let errDst = inst vm pc 1;
          catchPcOffset = (ucast (READ_U16 vm pc 2) :: u16);
          grown = (if len (tryStack vm) = cap (tryStack vm)
                   then zGrowTryStackTotalCapacity (tryStack vm) (len (tryStack vm) + 1)
                   else (RES_CODE_SUCCESS, tryStack vm))
      in if fst grown \<noteq> RES_CODE_SUCCESS
         then RETURN (fst grown) pc stack (vm\<lparr>tryStack := snd grown\<rparr>)
         else
           let ts = snd grown;
               frame = \<lparr>fp = stack,
                        catchPc = ucast (getInstOffset vm pc + ucast catchPcOffset),
                        catchErrDst = errDst\<rparr>;
               ts1 = ts\<lparr>buf := (buf ts)(len ts := frame)\<rparr>;
               ts2 = ts1\<lparr>len := len ts1 + 1\<rparr>
           in Next (pc + 4) stack (vm\<lparr>tryStack := ts2\<rparr>))"

definition exec_PopTry :: "u64 \<Rightarrow> u64 \<Rightarrow> VM \<Rightarrow> Outcome" where
  "exec_PopTry pc stack vm =
     (let vm1 = vm\<lparr>tryStack := (tryStack vm)\<lparr>len := len (tryStack vm) + 1\<rparr>\<rparr>
      in Next (pc + ucast (READ_U16 vm1 pc 1)) stack vm1)"

definition exec_Throw ::
  "(VM \<Rightarrow> u64 \<Rightarrow> u64 \<Rightarrow> Value \<Rightarrow> PcSpResult \<times> VM) \<Rightarrow> u64 \<Rightarrow> u64 \<Rightarrow> VM \<Rightarrow> Outcome" where
  "exec_Throw zThrow pc stack vm =
     (let err = stack_get vm stack (unat (inst vm pc 1))
      in if VALUE_IS_ERROR err then
           let res = fst (zThrow vm stack pc err);
               vm1 = snd (zThrow vm stack pc err)
           in if res_code res \<noteq> RES_CODE_SUCCESS then RETURN (res_code res) pc stack vm1
              else Next (res_pc res) (res_sp res) vm1
         else RETURN RES_CODE_PANIC pc stack (panicStaticMsg vm ''Not an error.''))"

subsection \<open>Fibers\<close>

text \<open>
  \<^verbatim>\<open>zPushFiber(vm, curFiberEndPc, curStack, fiber, parentDstLocal)\<close> switches to the
  fiber and returns the registers to continue with. Every path of \<^verbatim>\<open>Coresume\<close> that
  does not switch falls through to \<^verbatim>\<open>releaseObject\<close> and \<^verbatim>\<open>pc += 3\<close> (\<open>released\<close>).
\<close>

definition exec_Coresume ::
  "TypeId \<Rightarrow> Build \<Rightarrow> (VM \<Rightarrow> u64 \<Rightarrow> VM) \<Rightarrow> (VM \<Rightarrow> u32 \<Rightarrow> u64 \<Rightarrow> u64 \<Rightarrow> u8 \<Rightarrow> PcSp \<times> VM)
     \<Rightarrow> u64 \<Rightarrow> u64 \<Rightarrow> VM \<Rightarrow> Outcome" where
  "exec_Coresume TYPE_FIBER b zFreeObject zPushFiber pc stack vm =
     (let fiber = stack_get vm stack (unat (inst vm pc 1))
      in if VALUE_IS_POINTER fiber then
           let obj = VALUE_AS_HEAPOBJECT fiber;
               released = Next (pc + 3) stack (releaseObject b zFreeObject vm obj)
           in if typeId (heap vm obj) = TYPE_FIBER then
                if obj \<noteq> curFiber vm then
                  if fiber_pcOffset (heap vm obj) \<noteq> NULL_U32 then
                    let res = fst (zPushFiber vm (pcOffset vm (pc + 3)) stack obj (inst vm pc 2));
                        vm1 = snd (zPushFiber vm (pcOffset vm (pc + 3)) stack obj (inst vm pc 2))
                    in Next (res_pc res) (res_sp res) vm1
                  else released
                else released
              else released
         else Next (pc + 3) stack vm)"

subsection \<open>For ranges\<close>

text \<open>
  \<^verbatim>\<open>CodeForRange\<close> and \<^verbatim>\<open>CodeForRangeReverse\<close> are the opcode bytes of \<^verbatim>\<open>vm.h\<close>;
  \<^verbatim>\<open>zOtherToF64\<close> coerces a value that is not a number.
\<close>

definition exec_ForRangeInit ::
  "u8 \<Rightarrow> u8 \<Rightarrow> (VM \<Rightarrow> Value \<Rightarrow> u64) \<Rightarrow> u64 \<Rightarrow> u64 \<Rightarrow> VM \<Rightarrow> Outcome" where
  "exec_ForRangeInit CodeForRange CodeForRangeReverse zOtherToF64 pc stack vm =
     (let start = toF64 zOtherToF64 vm (stack_get vm stack (unat (inst vm pc 1)));
          endv = toF64 zOtherToF64 vm (stack_get vm stack (unat (inst vm pc 2)));
          vm1 = stack_set vm stack (unat (inst vm pc 2)) endv;
          step0 = toF64 zOtherToF64 vm1 (stack_get vm1 stack (unat (inst vm1 pc 3)));
          step = (if f64_lt step0 f64_zero then f64_neg step0 else step0);
          vm2 = stack_set vm1 stack (unat (inst vm1 pc 3)) step
      in if f64_eq start endv
         then Next (pc + ucast (READ_U16 vm2 pc 6 + 7)) stack vm2
         else
           let vm3 = stack_set vm2 stack (unat (inst vm2 pc 4)) start;
               vm4 = stack_set vm3 stack (unat (inst vm3 pc 5)) start;
               offset = (ucast (READ_U16 vm4 pc 6) :: u16);
               vm5 = (if f64_lt start endv
                      then inst_set vm4 pc (unat offset) CodeForRange
                      else inst_set vm4 pc (unat offset) CodeForRangeReverse)
           in Next (pc + 8) stack vm5)"

text \<open>
  The length of the \<^verbatim>\<open>ForRangeInit\<close> instruction, by which its body advances
  \<^verbatim>\<open>pc\<close> when the loop is entered, and of \<^verbatim>\<open>ForRange\<close> and \<^verbatim>\<open>ForRangeReverse\<close>,
  by which those leave the loop.
\<close>

definition FOR_RANGE_INIT_INST_LEN :: nat where
  "FOR_RANGE_INIT_INST_LEN = 8"

definition FOR_RANGE_INST_LEN :: nat where
  "FOR_RANGE_INST_LEN = 7"


section \<open>Concrete states\<close>

text \<open>
  A VM state with every field zero, from which the concrete inputs of the examples
  below are built by updates, and an excerpt of the rounding double operations with
  their results at the operands \<^verbatim>\<open>2.0\<close> and \<^verbatim>\<open>3.0\<close> only (\<^verbatim>\<open>5.0\<close>, \<^verbatim>\<open>-1.0\<close>,
  \<^verbatim>\<open>6.0\<close>, \<^verbatim>\<open>2.0/3.0\<close>, \<^verbatim>\<open>8.0\<close>, \<^verbatim>\<open>2.0\<close>); the examples read no other entry.
\<close>

definition vm_zero :: VM where
  "vm_zero =
     \<lparr>curPc = 0, curStack = 0, stackEndPtr = 0, instPtr = 0, curFiber = 0,
      tryStack = \<lparr>buf = (\<lambda>_. \<lparr>fp = 0, catchPc = 0, catchErrDst = 0\<rparr>), len = 0, cap = 0\<rparr>,
      refCounts = 0, numReleases = 0, numReleaseAttempts = 0,
      mem = (\<lambda>_. 0), insts = (\<lambda>_. 0),
      heap = (\<lambda>_. \<lparr>typeId = 0, rc = 0, fiber_pcOffset = 0, panicPayload = ([], 0),
                     panicType = PANIC_NONE\<rparr>)\<rparr>"

definition fpu_excerpt :: FPU where
  "fpu_excerpt =
     (let at = (\<lambda>r a b. if a = 0x4000000000000000 \<and> b = 0x4008000000000000 then r else 0)
      in \<lparr>f64_add = at 0x4014000000000000, f64_sub = at 0xbff0000000000000,
          f64_mul = at 0x4018000000000000, f64_div = at 0x3fe5555555555555,
          f64_pow = at 0x4020000000000000, f64_fmod = at 0x4000000000000000\<rparr>)"


section \<open>Basic facts\<close>

lemma slot_slot: "slot (slot p a) b = slot p (a + b)"
  by (simp add: slot_def algebra_simps)

lemma slot_0: "slot p 0 = p"
  by (simp add: slot_def)

lemma slot_neq_base: "slot p 2 \<noteq> p" "slot p 3 \<noteq> p"
  by (simp_all add: slot_def)

lemma static_msg_lengths:
  "length ''Expected number operand.'' = 24" "length ''Not an error.'' = 13"
  by simp_all

lemma panicStaticMsg_Not_an_error:
  "panicStaticMsg vm ''Not an error.'' =
     vm\<lparr>heap := (heap vm)(curFiber vm :=
           (heap vm (curFiber vm))\<lparr>panicPayload := (''Not an error.'', 13),
                                   panicType := PANIC_STATIC_MSG\<rparr>)\<rparr>"
  unfolding panicStaticMsg_def static_msg_lengths ..

lemma panicExpectedNumber_eq:
  "panicExpectedNumber vm =
     vm\<lparr>heap := (heap vm)(curFiber vm :=
           (heap vm (curFiber vm))\<lparr>panicPayload := (''Expected number operand.'', 24),
                                   panicType := PANIC_STATIC_MSG\<rparr>)\<rparr>"
  unfolding panicExpectedNumber_def panicStaticMsg_def static_msg_lengths ..

lemma vm_zero_simps:
  "mem vm_zero = (\<lambda>_. 0)" "insts vm_zero = (\<lambda>_. 0)" "curFiber vm_zero = 0"
  "len (tryStack vm_zero) = 0" "cap (tryStack vm_zero) = 0" "stackEndPtr vm_zero = 0"
  "instPtr vm_zero = 0"
  "heap vm_zero = (\<lambda>_. \<lparr>typeId = 0, rc = 0, fiber_pcOffset = 0, panicPayload = ([], 0),
                     panicType = PANIC_NONE\<rparr>)"
  by (simp_all add: vm_zero_def)

lemma mask32_numeral: "(0xffffffff::64 word) = mask 32"
  by (simp add: mask_eq_exp_minus_1)

lemma INTEGER_MASK_push: "INTEGER_MASK = push_bit 32 0x7ffc0007"
  by (simp add: INTEGER_MASK_def TAGGED_VALUE_MASK_def TAG_INTEGER_def)

lemma VALUE_AS_INTEGER_VALUE_INTEGER: "VALUE_AS_INTEGER (VALUE_INTEGER n) = n"
  unfolding VALUE_AS_INTEGER_def VALUE_INTEGER_def mask32_numeral INTEGER_MASK_push
  by (rule bit_word_eqI) (auto simp add: bit_simps simp del: push_bit_numeral)

section \<open>Try frames\<close>

lemma PushTry_len:
  assumes "len (tryStack vm) < cap (tryStack vm)"
  shows "\<exists>vm'. exec_PushTry zGrow pc stack vm = Next (pc + 4) stack vm'
      \<and> len (tryStack vm') = len (tryStack vm) + 1
      \<and> fp (buf (tryStack vm') (len (tryStack vm))) = stack"
  using assms by (simp add: exec_PushTry_def Let_def)

lemma PopTry_len:
  "\<exists>pc' vm'. exec_PopTry pc stack vm = Next pc' stack vm'
      \<and> len (tryStack vm') = len (tryStack vm) + 1"
  by (simp add: exec_PopTry_def Let_def)

text \<open>
  Claim C1. \<^verbatim>\<open>PopTry\<close> is to remove one frame from the try stack and jump past the
  handler by the u16 offset. The body of \<^verbatim>\<open>PopTry\<close> adds one to
  \<^verbatim>\<open>vm->tryStack.len\<close>, as \<^verbatim>\<open>PushTry\<close> does: on a try stack of one frame and an
  offset of 6 it jumps by 6 and leaves a try stack of length two, not the empty stack.
\<close>

theorem PopTry_increments_len:
  "exec_PopTry 0x100 0x1000
     (vm_zero\<lparr>tryStack := (tryStack vm_zero)\<lparr>len := 1, cap := 4\<rparr>,
              insts := (\<lambda>_. 0)(0x101 := 6)\<rparr>)
   = Next 0x106 0x1000
       (vm_zero\<lparr>tryStack := (tryStack vm_zero)\<lparr>len := 2, cap := 4\<rparr>,
                insts := (\<lambda>_. 0)(0x101 := 6)\<rparr>)"
  by (simp add: exec_PopTry_def READ_U16_def inst_def Let_def vm_zero_simps)

section \<open>Type compatibility\<close>

text \<open>
  Claim C3. For all sema type ids \<open>arg\<close> and \<open>cstr\<close>, \<^verbatim>\<open>isTypeSymCompat\<close> is true if
  and only if \<open>arg = cstr\<close>, or \<open>cstr\<close> is \<^verbatim>\<open>ANY\<close> or \<^verbatim>\<open>DYNAMIC\<close>, or \<open>cstr\<close> is
  \<^verbatim>\<open>STRING\<close> and \<open>arg\<close> is \<^verbatim>\<open>STATICSTRING\<close>.
\<close>

theorem isTypeSymCompat_iff:
  "isTypeSymCompat S arg cstr \<longleftrightarrow>
     arg = cstr \<or> cstr = SEMA_TYPE_ANY S \<or> cstr = SEMA_TYPE_DYNAMIC S
     \<or> (cstr = SEMA_TYPE_STRING S \<and> arg = SEMA_TYPE_STATICSTRING S)"
  by (simp add: isTypeSymCompat_def)

theorem isTypeSymCompat_iff_witness:
  "isTypeSymCompat \<lparr>SEMA_TYPE_ANY = 1, SEMA_TYPE_DYNAMIC = 2, SEMA_TYPE_STRING = 3,
      SEMA_TYPE_STATICSTRING = 4\<rparr> 4 3
   \<and> \<not> isTypeSymCompat \<lparr>SEMA_TYPE_ANY = 1, SEMA_TYPE_DYNAMIC = 2, SEMA_TYPE_STRING = 3,
      SEMA_TYPE_STATICSTRING = 4\<rparr> 3 4"
  using isTypeSymCompat_iff [of "\<lparr>SEMA_TYPE_ANY = 1, SEMA_TYPE_DYNAMIC = 2, SEMA_TYPE_STRING = 3,
      SEMA_TYPE_STATICSTRING = 4\<rparr>" 4 3]
    isTypeSymCompat_iff [of "\<lparr>SEMA_TYPE_ANY = 1, SEMA_TYPE_DYNAMIC = 2, SEMA_TYPE_STRING = 3,
      SEMA_TYPE_STATICSTRING = 4\<rparr>" 3 4]
  by simp

section \<open>Returns\<close>

text \<open>
  Claim C5. With \<open>numRetVals\<close> of the frame's \<open>retInfo\<close> in \<open>{0, 1}\<close>: \<^verbatim>\<open>Ret1\<close> with 0
  requested releases the value of slot 0 before it pops the frame, \<^verbatim>\<open>Ret0\<close> with 1
  requested writes \<^verbatim>\<open>NONE\<close> to slot 0, and the matching cases change nothing; every
  case restores \<^verbatim>\<open>pc\<close> from slot 2 and \<^verbatim>\<open>stack\<close> from slot 3, then continues when
  \<open>retFlag\<close> is 0 and returns \<^verbatim>\<open>SUCCESS\<close> otherwise (so when \<open>retFlag\<close> is 1).
\<close>

theorem ret_frame_pop:
  fixes b zFreeObject pc stack vm
  defines "retInfo \<equiv> stack_get vm stack 1"
  defines "numRetVals \<equiv> VALUE_RETINFO_NUMRETVALS retInfo"
  defines "retFlag \<equiv> VALUE_RETINFO_RETFLAG retInfo"
  defines "retPc \<equiv> stack_get vm stack 2"
  defines "retFp \<equiv> stack_get vm stack 3"
  shows "(numRetVals = 0 \<longrightarrow>
            exec_Ret1 b zFreeObject pc stack vm =
              (let vm1 = release b zFreeObject vm (stack_get vm stack 0)
               in if retFlag = 0
                  then Next (stack_get vm1 stack 2) (stack_get vm1 stack 3) vm1
                  else Return RES_CODE_SUCCESS
                         (vm1\<lparr>curPc := stack_get vm1 stack 2, curStack := stack_get vm1 stack 3\<rparr>)))
       \<and> (numRetVals = 1 \<longrightarrow>
            exec_Ret1 b zFreeObject pc stack vm =
              (if retFlag = 0 then Next retPc retFp vm
               else Return RES_CODE_SUCCESS (vm\<lparr>curPc := retPc, curStack := retFp\<rparr>)))
       \<and> (numRetVals = 1 \<longrightarrow>
            exec_Ret0 pc stack vm =
              (let vm1 = stack_set vm stack 0 VALUE_NONE
               in if retFlag = 0 then Next retPc retFp vm1
                  else Return RES_CODE_SUCCESS (vm1\<lparr>curPc := retPc, curStack := retFp\<rparr>)))
       \<and> (numRetVals = 0 \<longrightarrow>
            exec_Ret0 pc stack vm =
              (if retFlag = 0 then Next retPc retFp vm
               else Return RES_CODE_SUCCESS (vm\<lparr>curPc := retPc, curStack := retFp\<rparr>)))"
  unfolding retInfo_def numRetVals_def retFlag_def retPc_def retFp_def
  by (simp add: exec_Ret1_def exec_Ret0_def RETURN_def Let_def stack_get_def stack_set_def
        slot_0 slot_neq_base)

theorem ret_frame_pop_witness:
  "(case exec_Ret1 \<lparr>TRACK_GLOBAL_RC = False, TRACE_ENABLED = False\<rparr> (\<lambda>vm obj. vm) 0x100 0x1000
          (vm_zero\<lparr>mem := (\<lambda>_. 0)(0x1000 := 0xfffc000000002000, 0x1010 := 0x500, 0x1018 := 0x800),
                   heap := (heap vm_zero)(0x2000 := (heap vm_zero 0x2000)\<lparr>rc := 2\<rparr>)\<rparr>)
    of Next pc' stack' vm' \<Rightarrow> pc' = 0x500 \<and> stack' = 0x800 \<and> rc (heap vm' 0x2000) = 1
     | _ \<Rightarrow> False)
   \<and> (case exec_Ret0 0x100 0x1000
          (vm_zero\<lparr>mem := (\<lambda>_. 0)(0x1000 := 7, 0x1008 := 0x101, 0x1010 := 0x500, 0x1018 := 0x800)\<rparr>)
    of Return c vm' \<Rightarrow> c = RES_CODE_SUCCESS \<and> curPc vm' = 0x500 \<and> curStack vm' = 0x800
          \<and> mem vm' 0x1000 = VALUE_NONE
     | _ \<Rightarrow> False)"
  using ret_frame_pop [where b = "\<lparr>TRACK_GLOBAL_RC = False, TRACE_ENABLED = False\<rparr>"
          and zFreeObject = "\<lambda>vm obj. vm" and pc = "0x100" and stack = "0x1000"
          and vm = "vm_zero\<lparr>mem := (\<lambda>_. 0)(0x1000 := 0xfffc000000002000, 0x1010 := 0x500, 0x1018 := 0x800),
                   heap := (heap vm_zero)(0x2000 := (heap vm_zero 0x2000)\<lparr>rc := 2\<rparr>)\<rparr>"]
    ret_frame_pop [where b = "\<lparr>TRACK_GLOBAL_RC = False, TRACE_ENABLED = False\<rparr>"
          and zFreeObject = "\<lambda>vm obj. vm" and pc = "0x100" and stack = "0x1000"
          and vm = "vm_zero\<lparr>mem := (\<lambda>_. 0)(0x1000 := 7, 0x1008 := 0x101, 0x1010 := 0x500, 0x1018 := 0x800)\<rparr>"]
  by (simp add: vm_zero_simps stack_get_def stack_set_def slot_def Let_def
        VALUE_RETINFO_NUMRETVALS_def VALUE_RETINFO_RETFLAG_def release_def rc_decr_def
        VALUE_IS_POINTER_def VALUE_AS_HEAPOBJECT_def POINTER_MASK_def TAGGED_VALUE_MASK_def SIGN_MASK_def)

section \<open>Throw\<close>

text \<open>
  Claim C6. \<^verbatim>\<open>Throw\<close> on a register that does not hold an \<^verbatim>\<open>ERROR\<close> value sets the
  static panic message "Not an error." on the current fiber and returns \<^verbatim>\<open>PANIC\<close>;
  the try stack (so its length) is as before and the unwinding helper is not consulted.
  On an \<^verbatim>\<open>ERROR\<close> value the outcome is the one of the unwinding helper \<^verbatim>\<open>zThrow\<close>.
\<close>

theorem throw_non_error:
  fixes zThrow pc stack vm
  defines "err \<equiv> stack_get vm stack (unat (inst vm pc 1))"
  shows "(\<not> VALUE_IS_ERROR err \<longrightarrow>
            exec_Throw zThrow pc stack vm =
              Return RES_CODE_PANIC
                (vm\<lparr>heap := (heap vm)(curFiber vm :=
                      (heap vm (curFiber vm))\<lparr>panicPayload := (''Not an error.'', 13),
                                              panicType := PANIC_STATIC_MSG\<rparr>),
                    curPc := pc, curStack := stack\<rparr>))
       \<and> (VALUE_IS_ERROR err \<longrightarrow>
            exec_Throw zThrow pc stack vm =
              (if res_code (fst (zThrow vm stack pc err)) \<noteq> RES_CODE_SUCCESS
               then Return (res_code (fst (zThrow vm stack pc err)))
                      ((snd (zThrow vm stack pc err))\<lparr>curPc := pc, curStack := stack\<rparr>)
               else Next (res_pc (fst (zThrow vm stack pc err)))
                      (res_sp (fst (zThrow vm stack pc err))) (snd (zThrow vm stack pc err))))"
  by (simp add: exec_Throw_def err_def RETURN_def panicStaticMsg_Not_an_error Let_def)

theorem throw_non_error_witness:
  "(case exec_Throw (\<lambda>vm stack pc err. (\<lparr>res_pc = 0x200, res_sp = stack, res_code = RES_CODE_SUCCESS\<rparr>, vm))
          0x100 0x1000
          (vm_zero\<lparr>tryStack := (tryStack vm_zero)\<lparr>len := 1\<rparr>,
                   mem := (\<lambda>_. 0)(0x1008 := 0x7ffc000000000000),
                   insts := (\<lambda>_. 0)(0x101 := 1)\<rparr>)
    of Return c vm' \<Rightarrow> c = RES_CODE_PANIC \<and> len (tryStack vm') = 1
          \<and> panicPayload (heap vm' (curFiber vm')) = (''Not an error.'', 13)
          \<and> panicType (heap vm' (curFiber vm')) = PANIC_STATIC_MSG
     | _ \<Rightarrow> False)
   \<and> exec_Throw (\<lambda>vm stack pc err. (\<lparr>res_pc = 0x200, res_sp = stack, res_code = RES_CODE_SUCCESS\<rparr>, vm))
          0x100 0x1000
          (vm_zero\<lparr>mem := (\<lambda>_. 0)(0x1008 := 0x7ffc000200000005),
                   insts := (\<lambda>_. 0)(0x101 := 1)\<rparr>)
      = Next 0x200 0x1000 (vm_zero\<lparr>mem := (\<lambda>_. 0)(0x1008 := 0x7ffc000200000005),
                   insts := (\<lambda>_. 0)(0x101 := 1)\<rparr>)"
  using throw_non_error [where zThrow = "\<lambda>vm stack pc err. (\<lparr>res_pc = 0x200, res_sp = stack, res_code = RES_CODE_SUCCESS\<rparr>, vm)"
          and pc = "0x100" and stack = "0x1000"
          and vm = "vm_zero\<lparr>tryStack := (tryStack vm_zero)\<lparr>len := 1\<rparr>,
                   mem := (\<lambda>_. 0)(0x1008 := 0x7ffc000000000000),
                   insts := (\<lambda>_. 0)(0x101 := 1)\<rparr>"]
    throw_non_error [where zThrow = "\<lambda>vm stack pc err. (\<lparr>res_pc = 0x200, res_sp = stack, res_code = RES_CODE_SUCCESS\<rparr>, vm)"
          and pc = "0x100" and stack = "0x1000"
          and vm = "vm_zero\<lparr>mem := (\<lambda>_. 0)(0x1008 := 0x7ffc000200000005),
                   insts := (\<lambda>_. 0)(0x101 := 1)\<rparr>"]
  by (simp add: vm_zero_simps stack_get_def inst_def slot_def VALUE_IS_ERROR_def
        TAGGED_PRIMITIVE_MASK_def TAGGED_VALUE_MASK_def TAG_MASK_def SIGN_MASK_def ERROR_MASK_def
        TAG_ERROR_def)

section \<open>Tagged integers\<close>

text \<open>
  Claim C8. For every integer \<open>n\<close> with \<open>-2^31 \<le> n < 2^31\<close>, decoding the encoded tagged
  integer gives \<open>n\<close> back: \<^verbatim>\<open>VALUE_AS_INTEGER(VALUE_INTEGER(n)) == n\<close>.
\<close>

theorem integer_roundtrip:
  "- (2 ^ 31) \<le> n \<Longrightarrow> n < 2 ^ 31 \<Longrightarrow>
     sint (VALUE_AS_INTEGER (VALUE_INTEGER (word_of_int n))) = n"
  by (simp add: VALUE_AS_INTEGER_VALUE_INTEGER sint_sbintrunc' signed_take_bit_int_eq_self)

theorem integer_roundtrip_witness:
  "sint (VALUE_AS_INTEGER (VALUE_INTEGER (word_of_int (- 5)))) = - 5
   \<and> sint (VALUE_AS_INTEGER (VALUE_INTEGER (word_of_int (- (2 ^ 31))))) = - (2 ^ 31)"
  using integer_roundtrip [of "- 5"] integer_roundtrip [of "- (2 ^ 31)"] by simp


section \<open>Arithmetic and comparison\<close>

text \<open>
  Claim C2. For \<^verbatim>\<open>Add\<close>, \<^verbatim>\<open>Sub\<close>, \<^verbatim>\<open>Mul\<close>, \<^verbatim>\<open>Div\<close>, \<^verbatim>\<open>Pow\<close>, \<^verbatim>\<open>Mod\<close>,
  \<^verbatim>\<open>Less\<close>, \<^verbatim>\<open>Greater\<close>, \<^verbatim>\<open>LessEqual\<close>, \<^verbatim>\<open>GreaterEqual\<close> (two operand registers)
  and \<^verbatim>\<open>Neg\<close> (one): when an operand register does not hold a number, the body sets
  the static panic message "Expected number operand." on the current fiber and returns
  \<^verbatim>\<open>PANIC\<close>, with the register memory as it was (so the destination is unchanged);
  when the operands are numbers, the destination receives the result of the operation
  and \<^verbatim>\<open>pc\<close> advances past the instruction (4 bytes, 2 for \<^verbatim>\<open>Neg\<close>).
\<close>

theorem arith_operand_check:
  fixes fpu pc stack vm
  defines "left \<equiv> stack_get vm stack (unat (inst vm pc 1))"
  defines "right \<equiv> stack_get vm stack (unat (inst vm pc 2))"
  defines "dst \<equiv> unat (inst vm pc 3)"
  defines "vmp \<equiv>
       vm\<lparr>heap := (heap vm)(curFiber vm :=
              (heap vm (curFiber vm))\<lparr>panicPayload := (''Expected number operand.'', 24),
                                      panicType := PANIC_STATIC_MSG\<rparr>),
           curPc := pc, curStack := stack\<rparr>"
  defines "panicked \<equiv> Return RES_CODE_PANIC vmp"
  defines "stored \<equiv> (\<lambda>v. Next (pc + 4) stack (stack_set vm stack dst v))"
  shows "mem vmp = mem vm
       \<and> (\<not> (VALUE_IS_NUMBER left \<and> VALUE_IS_NUMBER right) \<longrightarrow>
            exec_Add fpu pc stack vm = panicked \<and> exec_Sub fpu pc stack vm = panicked
          \<and> exec_Mul fpu pc stack vm = panicked \<and> exec_Div fpu pc stack vm = panicked
          \<and> exec_Pow fpu pc stack vm = panicked \<and> exec_Mod fpu pc stack vm = panicked
          \<and> exec_Less pc stack vm = panicked \<and> exec_Greater pc stack vm = panicked
          \<and> exec_LessEqual pc stack vm = panicked \<and> exec_GreaterEqual pc stack vm = panicked)
       \<and> (VALUE_IS_NUMBER left \<and> VALUE_IS_NUMBER right \<longrightarrow>
            exec_Add fpu pc stack vm = stored (f64_add fpu left right)
          \<and> exec_Sub fpu pc stack vm = stored (f64_sub fpu left right)
          \<and> exec_Mul fpu pc stack vm = stored (f64_mul fpu left right)
          \<and> exec_Div fpu pc stack vm = stored (f64_div fpu left right)
          \<and> exec_Pow fpu pc stack vm = stored (f64_pow fpu left right)
          \<and> exec_Mod fpu pc stack vm = stored (f64_fmod fpu left right)
          \<and> exec_Less pc stack vm = stored (VALUE_BOOLEAN (f64_lt left right))
          \<and> exec_Greater pc stack vm = stored (VALUE_BOOLEAN (f64_gt left right))
          \<and> exec_LessEqual pc stack vm = stored (VALUE_BOOLEAN (f64_le left right))
          \<and> exec_GreaterEqual pc stack vm = stored (VALUE_BOOLEAN (f64_ge left right)))
       \<and> (\<not> VALUE_IS_NUMBER left \<longrightarrow> exec_Neg pc stack vm = panicked)
       \<and> (VALUE_IS_NUMBER left \<longrightarrow>
            exec_Neg pc stack vm =
              Next (pc + 2) stack (stack_set vm stack (unat (inst vm pc 1)) (f64_neg left)))"
  unfolding left_def right_def dst_def panicked_def vmp_def stored_def
  by (simp add: exec_Add_def exec_Sub_def exec_Mul_def exec_Div_def exec_Pow_def exec_Mod_def
        exec_Less_def exec_Greater_def exec_LessEqual_def exec_GreaterEqual_def exec_Neg_def
        VALUE_BOTH_NUMBERS_def RETURN_def panicExpectedNumber_eq Let_def)

theorem arith_operand_check_witness:
  "exec_Add fpu_excerpt 0x100 0x1000
      (vm_zero\<lparr>mem := (\<lambda>_. 0)(0x1000 := 0x4000000000000000, 0x1008 := 0x4008000000000000),
               insts := (\<lambda>_. 0)(0x101 := 0, 0x102 := 1, 0x103 := 2)\<rparr>)
    = Next 0x104 0x1000
      (vm_zero\<lparr>mem := (\<lambda>_. 0)(0x1000 := 0x4000000000000000, 0x1008 := 0x4008000000000000,
                                 0x1010 := 0x4014000000000000),
               insts := (\<lambda>_. 0)(0x101 := 0, 0x102 := 1, 0x103 := 2)\<rparr>)
   \<and> (case exec_Sub fpu_excerpt 0x100 0x1000
      (vm_zero\<lparr>mem := (\<lambda>_. 0)(0x1000 := 0x4000000000000000, 0x1008 := 0x4008000000000000),
               insts := (\<lambda>_. 0)(0x101 := 0, 0x102 := 1, 0x103 := 2)\<rparr>)
     of Next pc' stack' vm' \<Rightarrow> pc' = 0x104 \<and> mem vm' 0x1010 = 0xbff0000000000000
      | _ \<Rightarrow> False)
   \<and> (case exec_Mul fpu_excerpt 0x100 0x1000
      (vm_zero\<lparr>mem := (\<lambda>_. 0)(0x1000 := 0x4000000000000000, 0x1008 := 0x4008000000000000),
               insts := (\<lambda>_. 0)(0x101 := 0, 0x102 := 1, 0x103 := 2)\<rparr>)
     of Next pc' stack' vm' \<Rightarrow> pc' = 0x104 \<and> mem vm' 0x1010 = 0x4018000000000000
      | _ \<Rightarrow> False)
   \<and> (case exec_Div fpu_excerpt 0x100 0x1000
      (vm_zero\<lparr>mem := (\<lambda>_. 0)(0x1000 := 0x4000000000000000, 0x1008 := 0x4008000000000000),
               insts := (\<lambda>_. 0)(0x101 := 0, 0x102 := 1, 0x103 := 2)\<rparr>)
     of Next pc' stack' vm' \<Rightarrow> pc' = 0x104 \<and> mem vm' 0x1010 = 0x3fe5555555555555
      | _ \<Rightarrow> False)
   \<and> (case exec_Pow fpu_excerpt 0x100 0x1000
      (vm_zero\<lparr>mem := (\<lambda>_. 0)(0x1000 := 0x4000000000000000, 0x1008 := 0x4008000000000000),
               insts := (\<lambda>_. 0)(0x101 := 0, 0x102 := 1, 0x103 := 2)\<rparr>)
     of Next pc' stack' vm' \<Rightarrow> pc' = 0x104 \<and> mem vm' 0x1010 = 0x4020000000000000
      | _ \<Rightarrow> False)
   \<and> (case exec_Mod fpu_excerpt 0x100 0x1000
      (vm_zero\<lparr>mem := (\<lambda>_. 0)(0x1000 := 0x4000000000000000, 0x1008 := 0x4008000000000000),
               insts := (\<lambda>_. 0)(0x101 := 0, 0x102 := 1, 0x103 := 2)\<rparr>)
     of Next pc' stack' vm' \<Rightarrow> pc' = 0x104 \<and> mem vm' 0x1010 = 0x4000000000000000
      | _ \<Rightarrow> False)
   \<and> (case exec_Less 0x100 0x1000
      (vm_zero\<lparr>mem := (\<lambda>_. 0)(0x1000 := 0x4000000000000000, 0x1008 := 0x4008000000000000),
               insts := (\<lambda>_. 0)(0x101 := 0, 0x102 := 1, 0x103 := 2)\<rparr>)
     of Next pc' stack' vm' \<Rightarrow> pc' = 0x104 \<and> mem vm' 0x1010 = TRUE_MASK
      | _ \<Rightarrow> False)
   \<and> (case exec_Greater 0x100 0x1000
      (vm_zero\<lparr>mem := (\<lambda>_. 0)(0x1000 := 0x4000000000000000, 0x1008 := 0x4008000000000000),
               insts := (\<lambda>_. 0)(0x101 := 0, 0x102 := 1, 0x103 := 2)\<rparr>)
     of Next pc' stack' vm' \<Rightarrow> pc' = 0x104 \<and> mem vm' 0x1010 = FALSE_MASK
      | _ \<Rightarrow> False)
   \<and> (case exec_LessEqual 0x100 0x1000
      (vm_zero\<lparr>mem := (\<lambda>_. 0)(0x1000 := 0x4000000000000000, 0x1008 := 0x4008000000000000),
               insts := (\<lambda>_. 0)(0x101 := 0, 0x102 := 1, 0x103 := 2)\<rparr>)
     of Next pc' stack' vm' \<Rightarrow> pc' = 0x104 \<and> mem vm' 0x1010 = TRUE_MASK
      | _ \<Rightarrow> False)
   \<and> (case exec_GreaterEqual 0x100 0x1000
      (vm_zero\<lparr>mem := (\<lambda>_. 0)(0x1000 := 0x4000000000000000, 0x1008 := 0x4008000000000000),
               insts := (\<lambda>_. 0)(0x101 := 0, 0x102 := 1, 0x103 := 2)\<rparr>)
     of Next pc' stack' vm' \<Rightarrow> pc' = 0x104 \<and> mem vm' 0x1010 = FALSE_MASK
      | _ \<Rightarrow> False)
   \<and> (case exec_Add fpu_excerpt 0x100 0x1000
      (vm_zero\<lparr>mem := (\<lambda>_. 0)(0x1000 := 0x4000000000000000, 0x1008 := 0x7ffc000000000000,
                                 0x1010 := 0x4008000000000000),
               insts := (\<lambda>_. 0)(0x101 := 0, 0x102 := 1, 0x103 := 2)\<rparr>)
     of Return c vm' \<Rightarrow>
          c = RES_CODE_PANIC \<and> mem vm' 0x1010 = 0x4008000000000000
          \<and> panicPayload (heap vm' (curFiber vm')) = (''Expected number operand.'', 24)
          \<and> panicType (heap vm' (curFiber vm')) = PANIC_STATIC_MSG
      | _ \<Rightarrow> False)
   \<and> (case exec_Neg 0x100 0x1000
      (vm_zero\<lparr>mem := (\<lambda>_. 0)(0x1000 := 0x4000000000000000, 0x1008 := 0x7ffc000000000000),
               insts := (\<lambda>_. 0)(0x101 := 1)\<rparr>)
     of Return c vm' \<Rightarrow> c = RES_CODE_PANIC \<and> mem vm' 0x1008 = 0x7ffc000000000000
      | _ \<Rightarrow> False)
   \<and> (case exec_Neg 0x100 0x1000
      (vm_zero\<lparr>mem := (\<lambda>_. 0)(0x1000 := 0x4000000000000000, 0x1008 := 0x4008000000000000),
               insts := (\<lambda>_. 0)(0x101 := 0, 0x102 := 1, 0x103 := 2)\<rparr>)
     of Next pc' stack' vm' \<Rightarrow> pc' = 0x102 \<and> mem vm' 0x1000 = 0xc000000000000000
      | _ \<Rightarrow> False)"
  using arith_operand_check [where fpu = fpu_excerpt and pc = "0x100" and stack = "0x1000"
      and vm = "vm_zero\<lparr>mem := (\<lambda>_. 0)(0x1000 := 0x4000000000000000, 0x1008 := 0x4008000000000000),
               insts := (\<lambda>_. 0)(0x101 := 0, 0x102 := 1, 0x103 := 2)\<rparr>"]
    arith_operand_check [where fpu = fpu_excerpt and pc = "0x100" and stack = "0x1000"
      and vm = "vm_zero\<lparr>mem := (\<lambda>_. 0)(0x1000 := 0x4000000000000000, 0x1008 := 0x7ffc000000000000,
                                 0x1010 := 0x4008000000000000),
               insts := (\<lambda>_. 0)(0x101 := 0, 0x102 := 1, 0x103 := 2)\<rparr>"]
    arith_operand_check [where fpu = fpu_excerpt and pc = "0x100" and stack = "0x1000"
      and vm = "vm_zero\<lparr>mem := (\<lambda>_. 0)(0x1000 := 0x4000000000000000, 0x1008 := 0x7ffc000000000000),
               insts := (\<lambda>_. 0)(0x101 := 1)\<rparr>"]
  by (simp add: vm_zero_simps stack_get_def stack_set_def inst_def slot_def fpu_excerpt_def
        VALUE_IS_NUMBER_def TAGGED_VALUE_MASK_def VALUE_BOOLEAN_def
        f64_lt_def f64_le_def f64_gt_def f64_ge_def f64_is_nan_def f64_key_def f64_neg_def
        SIGN_MASK_def Let_def)

section \<open>Stack headroom of calls\<close>

text \<open>
  Claim C4, as amended. \<^verbatim>\<open>CallFuncIC\<close>, and \<^verbatim>\<open>CallObjFuncIC\<close> when its cached type
  matches, build the frame exactly when \<^verbatim>\<open>stack + startLocal + numLocals\<close> is strictly
  below \<^verbatim>\<open>stackEndPtr\<close>; otherwise they return \<^verbatim>\<open>STACK_OVERFLOW\<close> with the register
  memory untouched (only \<^verbatim>\<open>curPc\<close> and \<^verbatim>\<open>curStack\<close> are published). A call whose
  sum equals \<^verbatim>\<open>stackEndPtr\<close> faults.
\<close>

theorem call_stack_check:
  fixes CALL_SYM_INST_LEN TYPE_NUMBER CodeCallObjSym pc stack vm
  defines "startLocal \<equiv> unat (inst vm pc 1)"
  defines "frame \<equiv> slot stack startLocal"
  defines "recv \<equiv> (ucast (stack_get vm stack (startLocal + unat (inst vm pc 2) + 4 - 1)) :: u8)"
  defines "hit \<equiv> getTypeId TYPE_NUMBER vm (ucast recv) = READ_U16 vm pc 14"
  shows "(slot stack (startLocal + unat (inst vm pc 4)) < stackEndPtr vm \<longrightarrow>
            exec_CallFuncIC CALL_SYM_INST_LEN pc stack vm =
              Next (READ_U48 vm pc 6) frame
                (vm\<lparr>mem := (mem vm)
                   (slot frame 1 := VALUE_RETINFO (inst vm pc 3) 0 CALL_SYM_INST_LEN,
                    slot frame 2 := pc + ucast CALL_SYM_INST_LEN,
                    slot frame 3 := stack)\<rparr>))
       \<and> (\<not> slot stack (startLocal + unat (inst vm pc 4)) < stackEndPtr vm \<longrightarrow>
            exec_CallFuncIC CALL_SYM_INST_LEN pc stack vm =
              Return RES_CODE_STACK_OVERFLOW (vm\<lparr>curPc := pc, curStack := stack\<rparr>))
       \<and> (hit \<and> slot stack (startLocal + unat (inst vm pc 7)) < stackEndPtr vm \<longrightarrow>
            exec_CallObjFuncIC TYPE_NUMBER CodeCallObjSym pc stack vm =
              Next (instPtr vm + ucast (READ_U32 vm pc 8)) frame
                (vm\<lparr>mem := (mem vm)
                   (slot frame 1 :=
                      ((mem vm (slot frame 1) AND NOT 0xff) OR ucast (inst vm pc 3)) AND NOT 0xff00,
                    slot frame 2 := pc + 16,
                    slot frame 3 := stack)\<rparr>))
       \<and> (hit \<and> \<not> slot stack (startLocal + unat (inst vm pc 7)) < stackEndPtr vm \<longrightarrow>
            exec_CallObjFuncIC TYPE_NUMBER CodeCallObjSym pc stack vm =
              Return RES_CODE_STACK_OVERFLOW (vm\<lparr>curPc := pc, curStack := stack\<rparr>))"
proof -
  have u48: "READ_U48 (v\<lparr>mem := m\<rparr>) p k = READ_U48 v p k" for v m p k
    by (simp add: READ_U48_def inst_def)
  have u32: "READ_U32 (v\<lparr>mem := m\<rparr>) p k = READ_U32 v p k" for v m p k
    by (simp add: READ_U32_def inst_def)
  have func: "exec_CallFuncIC CALL_SYM_INST_LEN pc stack vm =
      (if slot stack (startLocal + unat (inst vm pc 4)) < stackEndPtr vm
       then Next (READ_U48 vm pc 6) frame
                (vm\<lparr>mem := (mem vm)
                   (slot frame 1 := VALUE_RETINFO (inst vm pc 3) 0 CALL_SYM_INST_LEN,
                    slot frame 2 := pc + ucast CALL_SYM_INST_LEN,
                    slot frame 3 := stack)\<rparr>)
       else Return RES_CODE_STACK_OVERFLOW (vm\<lparr>curPc := pc, curStack := stack\<rparr>))"
    unfolding exec_CallFuncIC_def Let_def slot_slot startLocal_def [symmetric]
      frame_def [symmetric]
    by (simp add: u48 stack_set_def RETURN_def not_less)
  have obj: "hit \<Longrightarrow> exec_CallObjFuncIC TYPE_NUMBER CodeCallObjSym pc stack vm =
      (if slot stack (startLocal + unat (inst vm pc 7)) < stackEndPtr vm
       then Next (instPtr vm + ucast (READ_U32 vm pc 8)) frame
                (vm\<lparr>mem := (mem vm)
                   (slot frame 1 :=
                      ((mem vm (slot frame 1) AND NOT 0xff) OR ucast (inst vm pc 3)) AND NOT 0xff00,
                    slot frame 2 := pc + 16,
                    slot frame 3 := stack)\<rparr>)
       else Return RES_CODE_STACK_OVERFLOW (vm\<lparr>curPc := pc, curStack := stack\<rparr>))"
    unfolding exec_CallObjFuncIC_def Let_def slot_slot startLocal_def [symmetric]
      frame_def [symmetric] recv_def [symmetric] hit_def [symmetric]
    by (simp add: u32 stack_get_def stack_set_def RETURN_def not_less)
  show ?thesis
    using obj by (simp add: func)
qed

theorem call_stack_check_witness:
  "(case exec_CallFuncIC 12 0x100 0x1000
        (vm_zero\<lparr>stackEndPtr := 0x1030,
                 insts := (\<lambda>_. 0)(0x100 := 30, 0x101 := 2, 0x103 := 1, 0x104 := 3, 0x107 := 2)\<rparr>)
    of Next pc' stack' vm' \<Rightarrow>
         pc' = 0x200 \<and> stack' = 0x1010 \<and> mem vm' 0x1018 = 0xc0001
         \<and> mem vm' 0x1020 = 0x10c \<and> mem vm' 0x1028 = 0x1000
     | _ \<Rightarrow> False)
   \<and> exec_CallFuncIC 12 0x100 0x1000
        (vm_zero\<lparr>stackEndPtr := 0x1020,
                 insts := (\<lambda>_. 0)(0x100 := 30, 0x101 := 2, 0x103 := 1, 0x104 := 3, 0x107 := 2)\<rparr>)
      = Return RES_CODE_STACK_OVERFLOW
        (vm_zero\<lparr>stackEndPtr := 0x1020,
                 insts := (\<lambda>_. 0)(0x100 := 30, 0x101 := 2, 0x103 := 1, 0x104 := 3, 0x107 := 2),
                 curPc := 0x100, curStack := 0x1000\<rparr>)
   \<and> (case exec_CallObjFuncIC 8 25 0x100 0x1000
        (vm_zero\<lparr>stackEndPtr := 0x1030, instPtr := 0x100,
                 insts := (\<lambda>_. 0)(0x100 := 27, 0x101 := 2, 0x102 := 1, 0x103 := 1, 0x107 := 3,
                                     0x108 := 0x40, 0x10e := 8)\<rparr>)
    of Next pc' stack' vm' \<Rightarrow>
         pc' = 0x140 \<and> stack' = 0x1010 \<and> mem vm' 0x1018 = 1
         \<and> mem vm' 0x1020 = 0x110 \<and> mem vm' 0x1028 = 0x1000
     | _ \<Rightarrow> False)
   \<and> exec_CallObjFuncIC 8 25 0x100 0x1000
        (vm_zero\<lparr>stackEndPtr := 0x1028, instPtr := 0x100,
                 insts := (\<lambda>_. 0)(0x100 := 27, 0x101 := 2, 0x102 := 1, 0x103 := 1, 0x107 := 3,
                                     0x108 := 0x40, 0x10e := 8)\<rparr>)
      = Return RES_CODE_STACK_OVERFLOW
        (vm_zero\<lparr>stackEndPtr := 0x1028, instPtr := 0x100,
                 insts := (\<lambda>_. 0)(0x100 := 27, 0x101 := 2, 0x102 := 1, 0x103 := 1, 0x107 := 3,
                                     0x108 := 0x40, 0x10e := 8),
                 curPc := 0x100, curStack := 0x1000\<rparr>)"
  using call_stack_check [where CALL_SYM_INST_LEN = 12 and TYPE_NUMBER = 8 and CodeCallObjSym = 25
      and pc = "0x100" and stack = "0x1000"
      and vm = "vm_zero\<lparr>stackEndPtr := 0x1030,
                 insts := (\<lambda>_. 0)(0x100 := 30, 0x101 := 2, 0x103 := 1, 0x104 := 3, 0x107 := 2)\<rparr>"]
    call_stack_check [where CALL_SYM_INST_LEN = 12 and TYPE_NUMBER = 8 and CodeCallObjSym = 25
      and pc = "0x100" and stack = "0x1000"
      and vm = "vm_zero\<lparr>stackEndPtr := 0x1020,
                 insts := (\<lambda>_. 0)(0x100 := 30, 0x101 := 2, 0x103 := 1, 0x104 := 3, 0x107 := 2)\<rparr>"]
    call_stack_check [where CALL_SYM_INST_LEN = 12 and TYPE_NUMBER = 8 and CodeCallObjSym = 25
      and pc = "0x100" and stack = "0x1000"
      and vm = "vm_zero\<lparr>stackEndPtr := 0x1030, instPtr := 0x100,
                 insts := (\<lambda>_. 0)(0x100 := 27, 0x101 := 2, 0x102 := 1, 0x103 := 1, 0x107 := 3,
                                     0x108 := 0x40, 0x10e := 8)\<rparr>"]
    call_stack_check [where CALL_SYM_INST_LEN = 12 and TYPE_NUMBER = 8 and CodeCallObjSym = 25
      and pc = "0x100" and stack = "0x1000"
      and vm = "vm_zero\<lparr>stackEndPtr := 0x1028, instPtr := 0x100,
                 insts := (\<lambda>_. 0)(0x100 := 27, 0x101 := 2, 0x102 := 1, 0x103 := 1, 0x107 := 3,
                                     0x108 := 0x40, 0x10e := 8)\<rparr>"]
  by (simp add: vm_zero_simps inst_def slot_def stack_get_def READ_U48_def READ_U32_def READ_U16_def
        VALUE_RETINFO_def getTypeId_def getPrimitiveTypeId_def VALUE_IS_POINTER_def
        VALUE_IS_NUMBER_def POINTER_MASK_def TAGGED_VALUE_MASK_def SIGN_MASK_def)

text \<open>
  Claim C4 as stated lets a call proceed whenever the sum is at most \<^verbatim>\<open>stackEndPtr\<close>.
  With \<^verbatim>\<open>stack = 0x1000\<close>, \<^verbatim>\<open>startLocal = 2\<close>, \<^verbatim>\<open>numLocals = 3\<close> and
  \<^verbatim>\<open>stackEndPtr = 0x1028\<close> the sum is exactly \<^verbatim>\<open>stackEndPtr\<close>, and \<^verbatim>\<open>CallFuncIC\<close>
  returns \<^verbatim>\<open>STACK_OVERFLOW\<close>.
\<close>

theorem call_stack_check_counterexample:
  "slot 0x1000 (unat (inst (vm_zero\<lparr>stackEndPtr := 0x1028,
                                     insts := (\<lambda>_. 0)(0x100 := 30, 0x101 := 2, 0x104 := 3)\<rparr>) 0x100 1)
              + unat (inst (vm_zero\<lparr>stackEndPtr := 0x1028,
                                     insts := (\<lambda>_. 0)(0x100 := 30, 0x101 := 2, 0x104 := 3)\<rparr>) 0x100 4))
     \<le> stackEndPtr (vm_zero\<lparr>stackEndPtr := 0x1028,
                               insts := (\<lambda>_. 0)(0x100 := 30, 0x101 := 2, 0x104 := 3)\<rparr>)
   \<and> exec_CallFuncIC 12 0x100 0x1000
        (vm_zero\<lparr>stackEndPtr := 0x1028,
                 insts := (\<lambda>_. 0)(0x100 := 30, 0x101 := 2, 0x104 := 3)\<rparr>)
      = Return RES_CODE_STACK_OVERFLOW
          (vm_zero\<lparr>stackEndPtr := 0x1028,
                   insts := (\<lambda>_. 0)(0x100 := 30, 0x101 := 2, 0x104 := 3),
                   curPc := 0x100, curStack := 0x1000\<rparr>)"
  by (simp add: exec_CallFuncIC_def Let_def RETURN_def inst_def slot_def vm_zero_simps)

section \<open>Resuming a finished fiber\<close>

text \<open>
  Claim C7. \<^verbatim>\<open>Coresume\<close> on a register holding a pointer to a fiber object whose
  \<^verbatim>\<open>pcOffset\<close> is \<^verbatim>\<open>U32_MAX\<close> does not switch fibers (the outcome does not depend on
  \<^verbatim>\<open>zPushFiber\<close>): \<^verbatim>\<open>pc\<close> advances by 3, \<^verbatim>\<open>stack\<close> stays, and the VM state
  differs from the one before only by the release of the handle, that is the
  reference count of the fiber object is one less (with the release counters of the
  build), and the object is handed to the finalizer \<^verbatim>\<open>zFreeObject\<close> when that count
  reached zero.
\<close>

theorem coresume_finished_fiber:
  fixes TYPE_FIBER b zFreeObject zPushFiber pc stack vm
  defines "fiber \<equiv> stack_get vm stack (unat (inst vm pc 1))"
  defines "obj \<equiv> VALUE_AS_HEAPOBJECT fiber"
  defines "vmd \<equiv>
     vm\<lparr>heap := (heap vm)(obj := (heap vm obj)\<lparr>rc := rc (heap vm obj) - 1\<rparr>),
        refCounts := (if TRACK_GLOBAL_RC b then refCounts vm - 1 else refCounts vm),
        numReleases := (if TRACE_ENABLED b then numReleases vm + 1 else numReleases vm),
        numReleaseAttempts :=
          (if TRACE_ENABLED b then numReleaseAttempts vm + 1 else numReleaseAttempts vm)\<rparr>"
  assumes "VALUE_IS_POINTER fiber"
    and "typeId (heap vm obj) = TYPE_FIBER"
    and "fiber_pcOffset (heap vm obj) = 0xffffffff"
  shows "exec_Coresume TYPE_FIBER b zFreeObject zPushFiber pc stack vm =
           Next (pc + 3) stack (if rc (heap vm obj) = 1 then zFreeObject vmd obj else vmd)"
proof -
  have dec: "releaseObject b zFreeObject vm obj =
               (if rc (heap vm obj) = 1 then zFreeObject vmd obj else vmd)"
    by (cases "TRACK_GLOBAL_RC b"; cases "TRACE_ENABLED b")
       (simp_all add: releaseObject_def rc_decr_def vmd_def Let_def)
  from assms(4-6) show ?thesis
    unfolding exec_Coresume_def Let_def fiber_def [symmetric] obj_def [symmetric] dec
    by (simp add: NULL_U32_def)
qed

theorem coresume_finished_fiber_witness:
  "exec_Coresume 9 \<lparr>TRACK_GLOBAL_RC = True, TRACE_ENABLED = False\<rparr> (\<lambda>vm obj. vm)
      (\<lambda>vm off stack fiber dst. (\<lparr>res_pc = 0, res_sp = 0\<rparr>, vm)) 0x100 0x1000
      (vm_zero\<lparr>refCounts := 5,
               mem := (\<lambda>_. 0)(0x1008 := 0xfffc000000002000),
               insts := (\<lambda>_. 0)(0x101 := 1),
               heap := (heap vm_zero)(0x2000 :=
                 \<lparr>typeId = 9, rc = 2, fiber_pcOffset = 0xffffffff, panicPayload = ([], 0),
                  panicType = PANIC_NONE\<rparr>)\<rparr>)
   = Next 0x103 0x1000
      (vm_zero\<lparr>refCounts := 4,
               mem := (\<lambda>_. 0)(0x1008 := 0xfffc000000002000),
               insts := (\<lambda>_. 0)(0x101 := 1),
               heap := (heap vm_zero)(0x2000 :=
                 \<lparr>typeId = 9, rc = 1, fiber_pcOffset = 0xffffffff, panicPayload = ([], 0),
                  panicType = PANIC_NONE\<rparr>)\<rparr>)"
  using coresume_finished_fiber [where TYPE_FIBER = 9
          and b = "\<lparr>TRACK_GLOBAL_RC = True, TRACE_ENABLED = False\<rparr>"
          and zFreeObject = "\<lambda>vm obj. vm"
          and zPushFiber = "\<lambda>vm off stack fiber dst. (\<lparr>res_pc = 0, res_sp = 0\<rparr>, vm)"
          and pc = "0x100" and stack = "0x1000"
          and vm = "vm_zero\<lparr>refCounts := 5,
               mem := (\<lambda>_. 0)(0x1008 := 0xfffc000000002000),
               insts := (\<lambda>_. 0)(0x101 := 1),
               heap := (heap vm_zero)(0x2000 :=
                 \<lparr>typeId = 9, rc = 2, fiber_pcOffset = 0xffffffff, panicPayload = ([], 0),
                  panicType = PANIC_NONE\<rparr>)\<rparr>"]
  by (simp add: vm_zero_simps stack_get_def inst_def slot_def
        VALUE_IS_POINTER_def VALUE_AS_HEAPOBJECT_def POINTER_MASK_def TAGGED_VALUE_MASK_def
        SIGN_MASK_def)

section \<open>For ranges\<close>

lemma READ_U16_less: "READ_U16 vm pc off < 0x10000"
proof -
  have "READ_U16 vm pc off AND mask 16 = READ_U16 vm pc off"
    unfolding READ_U16_def
    by (rule bit_word_eqI) (auto simp add: bit_simps dest: bit_imp_le_length)
  moreover have "READ_U16 vm pc off AND mask 16 < 2 ^ 16"
    by (rule and_mask_less') simp
  ultimately show ?thesis by simp
qed

lemma ucast_add_7:
  fixes x :: "32 word"
  assumes "x < 0x10000"
  shows "(ucast (x + 7) :: 64 word) = ucast x + 7"
proof -
  from assms have "unat x < 65536"
    by (simp add: word_less_nat_alt)
  then have "unat (x + 7) = unat x + 7"
    using unat_add_lem [of x 7] by simp
  then have "(of_nat (unat (x + 7)) :: 64 word) = of_nat (unat x) + 7"
    by simp
  then show ?thesis by simp
qed

lemma unat_ucast_u16:
  fixes x :: "32 word"
  assumes "x < 0x10000"
  shows "unat (ucast x :: 16 word) = unat x"
proof -
  from assms have "unat x < 2 ^ 16"
    by (simp add: word_less_nat_alt)
  then show ?thesis
    by (simp add: unsigned_ucast_eq take_bit_nat_eq_self)
qed

lemma xor_sign_bit_and:
  fixes c v :: "64 word"
  assumes "0x8000000000000000 AND c = 0"
  shows "(v XOR 0x8000000000000000) AND c = v AND c"
  using assms by (simp add: bit.conj_xor_distrib2)

lemma f64_is_nan_neg: "f64_is_nan (f64_neg v) = f64_is_nan v"
  by (simp add: f64_is_nan_def f64_neg_def xor_sign_bit_and SIGN_MASK_def)

lemma bit_63_neg: "bit (f64_neg v) 63 \<longleftrightarrow> \<not> bit v 63"
  by (simp add: f64_neg_def SIGN_MASK_def bit_simps)

lemma f64_key_neg: "f64_key (f64_neg v) = - f64_key v"
proof -
  have "f64_neg v AND 0x7fffffffffffffff = v AND 0x7fffffffffffffff"
    by (simp add: f64_neg_def xor_sign_bit_and SIGN_MASK_def)
  then show ?thesis
    by (simp add: f64_key_def bit_63_neg)
qed

lemma f64_key_zero: "f64_key f64_zero = 0"
  by (simp add: f64_key_def f64_zero_def)

lemma f64_is_nan_zero: "\<not> f64_is_nan f64_zero"
  by (simp add: f64_is_nan_def f64_zero_def)

lemma abs_step_not_negative:
  "\<not> f64_lt (if f64_lt s f64_zero then f64_neg s else s) f64_zero"
  by (simp add: f64_lt_def f64_is_nan_neg f64_key_neg f64_key_zero f64_is_nan_zero)

lemma abs_step_key:
  "\<not> f64_is_nan s \<Longrightarrow>
     f64_key (if f64_lt s f64_zero then f64_neg s else s) = \<bar>f64_key s\<bar>"
  by (simp add: f64_lt_def f64_key_neg f64_key_zero f64_is_nan_zero)

lemma f64_order:
  "f64_gt a b \<Longrightarrow> \<not> f64_eq a b \<and> \<not> f64_lt a b"
  "f64_lt a b \<Longrightarrow> \<not> f64_eq a b"
  by (auto simp add: f64_gt_def f64_lt_def f64_eq_def)

text \<open>
  Claim C9, as amended. With \<open>start\<close>, \<open>end\<close> and \<open>step\<close> the coerced operands of
  \<^verbatim>\<open>ForRangeInit\<close>: the end register receives the coerced end and the step register
  the absolute value of the step in every case. When \<open>start\<close> equals \<open>end\<close> the loop
  is skipped: \<^verbatim>\<open>pc\<close> advances by the u16 offset plus 7, the length of the
  \<^verbatim>\<open>ForRange\<close> instruction that sits at the offset (not the 8 bytes of
  \<^verbatim>\<open>ForRangeInit\<close> itself), and no other register is written. Otherwise both the
  loop-visible variable and the user binding are set to \<open>start\<close>, the opcode byte at
  \<^verbatim>\<open>pc + offset\<close> is patched to \<^verbatim>\<open>ForRange\<close> when \<open>start < end\<close> and to
  \<^verbatim>\<open>ForRangeReverse\<close> otherwise (so when \<open>start > end\<close>), and \<^verbatim>\<open>pc\<close> advances by 8.
\<close>

theorem for_range_init:
  fixes CodeForRange CodeForRangeReverse zOtherToDouble pc stack vm
  defines "start \<equiv> toF64 zOtherToDouble vm (stack_get vm stack (unat (inst vm pc 1)))"
  defines "endv \<equiv> toF64 zOtherToDouble vm (stack_get vm stack (unat (inst vm pc 2)))"
  defines "vm1 \<equiv> stack_set vm stack (unat (inst vm pc 2)) endv"
  defines "step0 \<equiv> toF64 zOtherToDouble vm1 (stack_get vm1 stack (unat (inst vm pc 3)))"
  defines "step \<equiv> (if f64_lt step0 f64_zero then f64_neg step0 else step0)"
  defines "vm2 \<equiv> stack_set vm1 stack (unat (inst vm pc 3)) step"
  defines "vm4 \<equiv> stack_set (stack_set vm2 stack (unat (inst vm pc 4)) start)
                    stack (unat (inst vm pc 5)) start"
  defines "offset \<equiv> READ_U16 vm pc 6"
  shows "(f64_eq start endv \<longrightarrow>
            exec_ForRangeInit CodeForRange CodeForRangeReverse zOtherToDouble pc stack vm =
              Next (pc + ucast offset + of_nat FOR_RANGE_INST_LEN) stack vm2)
       \<and> (\<not> f64_eq start endv \<longrightarrow>
            exec_ForRangeInit CodeForRange CodeForRangeReverse zOtherToDouble pc stack vm =
              Next (pc + of_nat FOR_RANGE_INIT_INST_LEN) stack
                (inst_set vm4 pc (unat offset)
                   (if f64_lt start endv then CodeForRange else CodeForRangeReverse)))
       \<and> (f64_lt start endv \<longrightarrow> \<not> f64_eq start endv)
       \<and> (f64_gt start endv \<longrightarrow> \<not> f64_eq start endv \<and> \<not> f64_lt start endv)
       \<and> \<not> f64_lt step f64_zero
       \<and> (\<not> f64_is_nan step0 \<longrightarrow> f64_key step = \<bar>f64_key step0\<bar>)"
proof -
  have insts_same: "inst (stack_set v s n x) p k = inst v p k" for v s n x p k
    by (simp add: inst_def stack_set_def)
  have read_same: "READ_U16 (stack_set v s n x) p k = READ_U16 v p k" for v s n x p k
    by (simp add: READ_U16_def insts_same)
  have body: "exec_ForRangeInit CodeForRange CodeForRangeReverse zOtherToDouble pc stack vm =
      (if f64_eq start endv
       then Next (pc + ucast (offset + 7)) stack vm2
       else Next (pc + 8) stack
              (inst_set vm4 pc (unat (ucast offset :: 16 word))
                 (if f64_lt start endv then CodeForRange else CodeForRangeReverse)))"
    unfolding exec_ForRangeInit_def Let_def start_def endv_def vm1_def step0_def step_def
      vm2_def vm4_def offset_def
    by (simp add: insts_same read_same)
  have off: "offset < 0x10000"
    unfolding offset_def by (rule READ_U16_less)
  show ?thesis
    unfolding body step_def
    using f64_order [of start endv]
    by (simp add: ucast_add_7 [OF off] unat_ucast_u16 [OF off] FOR_RANGE_INST_LEN_def
          FOR_RANGE_INIT_INST_LEN_def abs_step_not_negative abs_step_key add.assoc)
qed


theorem for_range_init_witness:
  "(case exec_ForRangeInit 90 91 (\<lambda>vm v. 0) 0x100 0x1000
          (vm_zero\<lparr>mem := (\<lambda>_. 0)(0x1000 := 0x3ff0000000000000, 0x1008 := 0x3ff0000000000000,
                                     0x1010 := 0xbff0000000000000),
                   insts := (\<lambda>_. 0)(0x100 := 89, 0x101 := 0, 0x102 := 1, 0x103 := 2,
                                       0x104 := 3, 0x105 := 4, 0x106 := 10)\<rparr>)
    of Next pc' stack' vm' \<Rightarrow>
         pc' = 0x111 \<and> mem vm' 0x1010 = 0x3ff0000000000000
         \<and> mem vm' 0x1018 = 0 \<and> mem vm' 0x1020 = 0 \<and> insts vm' 0x10a = 0
     | _ \<Rightarrow> False)
   \<and> (case exec_ForRangeInit 90 91 (\<lambda>vm v. 0) 0x100 0x1000
          (vm_zero\<lparr>mem := (\<lambda>_. 0)(0x1000 := 0x3ff0000000000000, 0x1008 := 0x4008000000000000,
                                     0x1010 := 0xbff0000000000000),
                   insts := (\<lambda>_. 0)(0x100 := 89, 0x101 := 0, 0x102 := 1, 0x103 := 2,
                                       0x104 := 3, 0x105 := 4, 0x106 := 10)\<rparr>)
    of Next pc' stack' vm' \<Rightarrow>
         pc' = 0x108 \<and> mem vm' 0x1010 = 0x3ff0000000000000
         \<and> mem vm' 0x1018 = 0x3ff0000000000000 \<and> mem vm' 0x1020 = 0x3ff0000000000000
         \<and> insts vm' 0x10a = 90
     | _ \<Rightarrow> False)
   \<and> (case exec_ForRangeInit 90 91 (\<lambda>vm v. 0) 0x100 0x1000
          (vm_zero\<lparr>mem := (\<lambda>_. 0)(0x1000 := 0x4008000000000000, 0x1008 := 0x3ff0000000000000,
                                     0x1010 := 0x3ff0000000000000),
                   insts := (\<lambda>_. 0)(0x100 := 89, 0x101 := 0, 0x102 := 1, 0x103 := 2,
                                       0x104 := 3, 0x105 := 4, 0x106 := 10)\<rparr>)
    of Next pc' stack' vm' \<Rightarrow>
         pc' = 0x108 \<and> mem vm' 0x1018 = 0x4008000000000000 \<and> insts vm' 0x10a = 91
     | _ \<Rightarrow> False)"
proof -
  have c1: "(case exec_ForRangeInit 90 91 (\<lambda>vm v. 0) 0x100 0x1000
          (vm_zero\<lparr>mem := (\<lambda>_. 0)(0x1000 := 0x3ff0000000000000, 0x1008 := 0x3ff0000000000000,
                                     0x1010 := 0xbff0000000000000),
                   insts := (\<lambda>_. 0)(0x100 := 89, 0x101 := 0, 0x102 := 1, 0x103 := 2,
                                       0x104 := 3, 0x105 := 4, 0x106 := 10)\<rparr>)
    of Next pc' stack' vm' \<Rightarrow>
         pc' = 0x111 \<and> mem vm' 0x1010 = 0x3ff0000000000000
         \<and> mem vm' 0x1018 = 0 \<and> mem vm' 0x1020 = 0 \<and> insts vm' 0x10a = 0
     | _ \<Rightarrow> False)"
    using for_range_init [where CodeForRange = 90 and CodeForRangeReverse = 91
      and zOtherToDouble = "\<lambda>(vm::VM) (v::64 word). (0::64 word)" and pc = "0x100" and stack = "0x1000"
      and vm = "vm_zero\<lparr>mem := (\<lambda>_. 0)(0x1000 := 0x3ff0000000000000, 0x1008 := 0x3ff0000000000000,
                                     0x1010 := 0xbff0000000000000),
                   insts := (\<lambda>_. 0)(0x100 := 89, 0x101 := 0, 0x102 := 1, 0x103 := 2,
                                       0x104 := 3, 0x105 := 4, 0x106 := 10)\<rparr>"]
    by (simp add: toF64_def VALUE_IS_NUMBER_def TAGGED_VALUE_MASK_def
        vm_zero_simps stack_get_def stack_set_def inst_def inst_set_def slot_def READ_U16_def
        f64_eq_def f64_lt_def f64_gt_def f64_is_nan_def f64_key_def f64_zero_def f64_neg_def
        SIGN_MASK_def FOR_RANGE_INIT_INST_LEN_def FOR_RANGE_INST_LEN_def)
  have c2: "(case exec_ForRangeInit 90 91 (\<lambda>vm v. 0) 0x100 0x1000
          (vm_zero\<lparr>mem := (\<lambda>_. 0)(0x1000 := 0x3ff0000000000000, 0x1008 := 0x4008000000000000,
                                     0x1010 := 0xbff0000000000000),
                   insts := (\<lambda>_. 0)(0x100 := 89, 0x101 := 0, 0x102 := 1, 0x103 := 2,
                                       0x104 := 3, 0x105 := 4, 0x106 := 10)\<rparr>)
    of Next pc' stack' vm' \<Rightarrow>
         pc' = 0x108 \<and> mem vm' 0x1010 = 0x3ff0000000000000
         \<and> mem vm' 0x1018 = 0x3ff0000000000000 \<and> mem vm' 0x1020 = 0x3ff0000000000000
         \<and> insts vm' 0x10a = 90
     | _ \<Rightarrow> False)"
    using for_range_init [where CodeForRange = 90 and CodeForRangeReverse = 91
      and zOtherToDouble = "\<lambda>(vm::VM) (v::64 word). (0::64 word)" and pc = "0x100" and stack = "0x1000"
      and vm = "vm_zero\<lparr>mem := (\<lambda>_. 0)(0x1000 := 0x3ff0000000000000, 0x1008 := 0x4008000000000000,
                                     0x1010 := 0xbff0000000000000),
                   insts := (\<lambda>_. 0)(0x100 := 89, 0x101 := 0, 0x102 := 1, 0x103 := 2,
                                       0x104 := 3, 0x105 := 4, 0x106 := 10)\<rparr>"]
    by (simp add: toF64_def VALUE_IS_NUMBER_def TAGGED_VALUE_MASK_def
        vm_zero_simps stack_get_def stack_set_def inst_def inst_set_def slot_def READ_U16_def
        f64_eq_def f64_lt_def f64_gt_def f64_is_nan_def f64_key_def f64_zero_def f64_neg_def
        SIGN_MASK_def FOR_RANGE_INIT_INST_LEN_def FOR_RANGE_INST_LEN_def)
  have c3: "(case exec_ForRangeInit 90 91 (\<lambda>vm v. 0) 0x100 0x1000
          (vm_zero\<lparr>mem := (\<lambda>_. 0)(0x1000 := 0x4008000000000000, 0x1008 := 0x3ff0000000000000,
                                     0x1010 := 0x3ff0000000000000),
                   insts := (\<lambda>_. 0)(0x100 := 89, 0x101 := 0, 0x102 := 1, 0x103 := 2,
                                       0x104 := 3, 0x105 := 4, 0x106 := 10)\<rparr>)
    of Next pc' stack' vm' \<Rightarrow>
         pc' = 0x108 \<and> mem vm' 0x1018 = 0x4008000000000000 \<and> insts vm' 0x10a = 91
     | _ \<Rightarrow> False)"
    using for_range_init [where CodeForRange = 90 and CodeForRangeReverse = 91
      and zOtherToDouble = "\<lambda>(vm::VM) (v::64 word). (0::64 word)" and pc = "0x100" and stack = "0x1000"
      and vm = "vm_zero\<lparr>mem := (\<lambda>_. 0)(0x1000 := 0x4008000000000000, 0x1008 := 0x3ff0000000000000,
                                     0x1010 := 0x3ff0000000000000),
                   insts := (\<lambda>_. 0)(0x100 := 89, 0x101 := 0, 0x102 := 1, 0x103 := 2,
                                       0x104 := 3, 0x105 := 4, 0x106 := 10)\<rparr>"]
    by (simp add: toF64_def VALUE_IS_NUMBER_def TAGGED_VALUE_MASK_def
        vm_zero_simps stack_get_def stack_set_def inst_def inst_set_def slot_def READ_U16_def
        f64_eq_def f64_lt_def f64_gt_def f64_is_nan_def f64_key_def f64_zero_def f64_neg_def
        SIGN_MASK_def FOR_RANGE_INIT_INST_LEN_def FOR_RANGE_INST_LEN_def)
  from c1 c2 c3 show ?thesis by (intro conjI)
qed

text \<open>
  Claim C9 as stated has the skip jump by the u16 offset plus the instruction length.
  On a \<^verbatim>\<open>ForRangeInit\<close> at \<^verbatim>\<open>0x100\<close> with offset 10 and start and end both \<^verbatim>\<open>1.0\<close>,
  the body continues at \<^verbatim>\<open>0x100 + 10 + 7\<close>, which is not \<^verbatim>\<open>0x100 + 10\<close> plus the 8
  bytes of the instruction; the loop variable registers 3 and 4 are not written.
\<close>

theorem for_range_init_skip_counterexample:
  "(case exec_ForRangeInit 90 91 (\<lambda>vm v. 0) 0x100 0x1000
          (vm_zero\<lparr>mem := (\<lambda>_. 0)(0x1000 := 0x3ff0000000000000, 0x1008 := 0x3ff0000000000000,
                                     0x1010 := 0x3ff0000000000000),
                   insts := (\<lambda>_. 0)(0x100 := 89, 0x101 := 0, 0x102 := 1, 0x103 := 2,
                                       0x104 := 3, 0x105 := 4, 0x106 := 10)\<rparr>)
    of Next pc' stack' vm' \<Rightarrow>
         pc' = 0x100 + 10 + 7 \<and> pc' \<noteq> 0x100 + 10 + of_nat FOR_RANGE_INIT_INST_LEN
         \<and> mem vm' 0x1018 = 0 \<and> mem vm' 0x1020 = 0
     | _ \<Rightarrow> False)"
  by (simp add: exec_ForRangeInit_def Let_def toF64_def VALUE_IS_NUMBER_def TAGGED_VALUE_MASK_def
        vm_zero_simps stack_get_def stack_set_def inst_def slot_def READ_U16_def
        f64_eq_def f64_lt_def f64_is_nan_def f64_key_def f64_zero_def
        FOR_RANGE_INIT_INST_LEN_def)

section \<open>Negative results of the integer fast paths\<close>

lemma VALUE_INTEGER_negative_high:
  assumes "sint n < 0"
  shows "drop_bit 32 (VALUE_INTEGER n) = 0xffffffff"
  unfolding mask32_numeral
proof (rule bit_word_eqI)
  fix k assume "k < LENGTH(64)"
  from assms have msb: "bit n 31"
    using bit_last_iff [of n] by simp
  show "bit (drop_bit 32 (VALUE_INTEGER n)) k = bit (mask 32 :: 64 word) k"
  proof (cases "k < 32")
    case True
    with msb show ?thesis
      by (simp add: VALUE_INTEGER_def bit_simps)
  next
    case False
    then have "\<not> bit (VALUE_INTEGER n) (32 + k)"
      by (auto dest: bit_imp_le_length)
    with False show ?thesis
      by (simp add: bit_simps)
  qed
qed

lemma VALUE_INTEGER_negative_and:
  assumes "sint n < 0" and "m AND 0xffffffff = 0"
  shows "VALUE_INTEGER n AND m = m"
proof (rule bit_word_eqI)
  fix k assume k: "k < LENGTH(64)"
  from assms(2) have low: "\<not> bit m j" if "j < 32" for j
  proof -
    have "bit (m AND mask 32) j = bit (0::64 word) j"
      using assms(2) by (simp add: mask32_numeral)
    with that show ?thesis by (simp add: bit_simps)
  qed
  from assms(1) have msb: "bit n 31"
    using bit_last_iff [of n] by simp
  show "bit (VALUE_INTEGER n AND m) k = bit m k"
    using k low[of k] msb
    by (cases "k < 32") (auto simp add: VALUE_INTEGER_def bit_simps)
qed

lemma VALUE_INTEGER_negative_pointer:
  "sint n < 0 \<Longrightarrow> VALUE_IS_POINTER (VALUE_INTEGER n)"
  unfolding VALUE_IS_POINTER_def
  by (rule VALUE_INTEGER_negative_and)
     (simp_all add: POINTER_MASK_def TAGGED_VALUE_MASK_def SIGN_MASK_def)

lemma VALUE_INTEGER_negative_not_tagged:
  assumes "sint n < 0"
  shows "VALUE_INTEGER n AND (TAGGED_PRIMITIVE_MASK OR SIGN_MASK) \<noteq> INTEGER_MASK"
proof -
  have "VALUE_INTEGER n AND (TAGGED_PRIMITIVE_MASK OR SIGN_MASK)
          = TAGGED_PRIMITIVE_MASK OR SIGN_MASK"
    using assms
    by (rule VALUE_INTEGER_negative_and)
       (simp add: TAGGED_PRIMITIVE_MASK_def TAGGED_VALUE_MASK_def TAG_MASK_def SIGN_MASK_def)
  then show ?thesis
    by (simp add: TAGGED_PRIMITIVE_MASK_def TAGGED_VALUE_MASK_def TAG_MASK_def SIGN_MASK_def
          INTEGER_MASK_def TAG_INTEGER_def)
qed

text \<open>
  Claim C10. When the signed 32-bit sum (\<^verbatim>\<open>AddInt\<close>) or difference (\<^verbatim>\<open>SubInt\<close>) of
  the operands' low words is negative, the word stored in the destination has all of
  its high 32 bits set: it satisfies \<^verbatim>\<open>VALUE_IS_POINTER\<close>, its tag bits with the sign
  bit are not those of a tagged integer, and \<^verbatim>\<open>getTypeId\<close> reads a heap header for
  it. Its low 32 bits are still the result.
\<close>

theorem int_fast_path_negative:
  fixes TYPE_NUMBER pc stack vm
  defines "left \<equiv> VALUE_AS_INTEGER (stack_get vm stack (unat (inst vm pc 1)))"
  defines "right \<equiv> VALUE_AS_INTEGER (stack_get vm stack (unat (inst vm pc 2)))"
  defines "dst \<equiv> unat (inst vm pc 3)"
  defines "is_tagged_int \<equiv> (\<lambda>v. v AND (TAGGED_PRIMITIVE_MASK OR SIGN_MASK) = INTEGER_MASK)"
  shows "(sint (left + right) < 0 \<longrightarrow>
            exec_AddInt pc stack vm =
              Next (pc + 4) stack (stack_set vm stack dst (VALUE_INTEGER (left + right)))
          \<and> drop_bit 32 (VALUE_INTEGER (left + right)) = 0xffffffff
          \<and> VALUE_IS_POINTER (VALUE_INTEGER (left + right))
          \<and> \<not> is_tagged_int (VALUE_INTEGER (left + right))
          \<and> getTypeId TYPE_NUMBER vm (VALUE_INTEGER (left + right)) =
              typeId (heap vm (VALUE_AS_HEAPOBJECT (VALUE_INTEGER (left + right))))
          \<and> VALUE_AS_INTEGER (VALUE_INTEGER (left + right)) = left + right)
       \<and> (sint (left - right) < 0 \<longrightarrow>
            exec_SubInt pc stack vm =
              Next (pc + 4) stack (stack_set vm stack dst (VALUE_INTEGER (left - right)))
          \<and> drop_bit 32 (VALUE_INTEGER (left - right)) = 0xffffffff
          \<and> VALUE_IS_POINTER (VALUE_INTEGER (left - right))
          \<and> \<not> is_tagged_int (VALUE_INTEGER (left - right))
          \<and> getTypeId TYPE_NUMBER vm (VALUE_INTEGER (left - right)) =
              typeId (heap vm (VALUE_AS_HEAPOBJECT (VALUE_INTEGER (left - right))))
          \<and> VALUE_AS_INTEGER (VALUE_INTEGER (left - right)) = left - right)"
  unfolding left_def right_def dst_def is_tagged_int_def
  by (simp add: exec_AddInt_def exec_SubInt_def Let_def getTypeId_def
        VALUE_INTEGER_negative_high VALUE_INTEGER_negative_pointer
        VALUE_INTEGER_negative_not_tagged VALUE_AS_INTEGER_VALUE_INTEGER)

theorem int_fast_path_negative_witness:
  "(case exec_AddInt 0x100 0x1000
     (vm_zero\<lparr>mem := (\<lambda>_. 0)(0x1000 := 0x7ffc000700000003, 0x1008 := 0xfffffffffffffffb),
              insts := (\<lambda>_. 0)(0x101 := 0, 0x102 := 1, 0x103 := 2)\<rparr>)
    of Next pc' stack' vm' \<Rightarrow>
         pc' = 0x104 \<and> VALUE_IS_POINTER (mem vm' 0x1010)
         \<and> drop_bit 32 (mem vm' 0x1010) = 0xffffffff
         \<and> sint (VALUE_AS_INTEGER (mem vm' 0x1010)) = - 2
     | _ \<Rightarrow> False)
   \<and> (case exec_SubInt 0x100 0x1000
     (vm_zero\<lparr>mem := (\<lambda>_. 0)(0x1000 := 0x7ffc000700000003, 0x1008 := 0x7ffc000700000005),
              insts := (\<lambda>_. 0)(0x101 := 0, 0x102 := 1, 0x103 := 2)\<rparr>)
    of Next pc' stack' vm' \<Rightarrow>
         pc' = 0x104 \<and> VALUE_IS_POINTER (mem vm' 0x1010)
         \<and> drop_bit 32 (mem vm' 0x1010) = 0xffffffff
         \<and> sint (VALUE_AS_INTEGER (mem vm' 0x1010)) = - 2
     | _ \<Rightarrow> False)"
  using int_fast_path_negative [where TYPE_NUMBER = 8 and pc = "0x100" and stack = "0x1000"
      and vm = "vm_zero\<lparr>mem := (\<lambda>_. 0)(0x1000 := 0x7ffc000700000003, 0x1008 := 0xfffffffffffffffb),
              insts := (\<lambda>_. 0)(0x101 := 0, 0x102 := 1, 0x103 := 2)\<rparr>"]
    int_fast_path_negative [where TYPE_NUMBER = 8 and pc = "0x100" and stack = "0x1000"
      and vm = "vm_zero\<lparr>mem := (\<lambda>_. 0)(0x1000 := 0x7ffc000700000003, 0x1008 := 0x7ffc000700000005),
              insts := (\<lambda>_. 0)(0x101 := 0, 0x102 := 1, 0x103 := 2)\<rparr>"]
  by (simp add: vm_zero_simps stack_get_def stack_set_def inst_def slot_def
        VALUE_AS_INTEGER_def VALUE_INTEGER_def INTEGER_MASK_def TAGGED_VALUE_MASK_def TAG_INTEGER_def)

end
